theory Spec2Isabelle
  imports Main "HOL-Library.AList"
begin

section \<open>Exceptions and Python values\<close>

text \<open>
  Every exception the modelled code can raise is a constructor of \<open>error\<close>; a
  function that can raise returns \<open>error + 'a\<close> with \<open>Inl\<close> for the exception.
\<close>

datatype error =
    StopIteration
  | AssertionError string
  | KeyError
  | IndexError
  | TypeError
  | AttributeError
  | ValueError
  | ParseError string
  | AssemblyError string
  | NotImplementedError
  | StructError
  | UnboundLocalError
  | Exception string

text \<open>
  Grammar symbols and token types are plain Python values. \<open>Str\<close> is a \<open>str\<close>
  (a bare nonterminal), \<open>Tok\<close> a token-type value (an enum member, named by
  a string), \<open>StateNo\<close> an \<open>int\<close> state number, \<open>PyNone\<close> is \<open>None\<close>,
  \<open>EMPTY\<close> and \<open>END\<close> are the two sentinel objects of \<open>Grammar\<close>, and
  \<open>Triple\<close> is a 3-tuple (an extended symbol).
\<close>

datatype sym =
    Str string
  | Tok string
  | StateNo nat
  | PyNone
  | EMPTY
  | END
  | Triple sym sym sym

section \<open>parsing.py: TextSpan\<close>

record TextSpan =
  start_line :: int
  start_column :: int
  end_line :: int
  end_column :: int

text \<open>Python's comparison of 2-tuples of ints is lexicographic.\<close>

definition tuple_gt :: "int \<times> int \<Rightarrow> int \<times> int \<Rightarrow> bool" where
  "tuple_gt p q = (fst p > fst q \<or> (fst p = fst q \<and> snd p > snd q))"

definition tuple_lt :: "int \<times> int \<Rightarrow> int \<times> int \<Rightarrow> bool" where
  "tuple_lt p q = (fst p < fst q \<or> (fst p = fst q \<and> snd p < snd q))"

definition tuple_le :: "int \<times> int \<Rightarrow> int \<times> int \<Rightarrow> bool" where
  "tuple_le p q = (fst p < fst q \<or> (fst p = fst q \<and> snd p \<le> snd q))"

definition TextSpan_start :: "TextSpan \<Rightarrow> int \<times> int" where
  "TextSpan_start self = (start_line self, start_column self)"

definition TextSpan_end :: "TextSpan \<Rightarrow> int \<times> int" where
  "TextSpan_end self = (end_line self, end_column self)"

text \<open>The attrs-generated constructor followed by \<open>__attrs_post_init__\<close>.\<close>

definition TextSpan_init :: "int \<Rightarrow> int \<Rightarrow> int \<Rightarrow> int \<Rightarrow> TextSpan" where
  "TextSpan_init sl sc el ec =
     (let self = \<lparr>start_line = sl, start_column = sc, end_line = el, end_column = ec\<rparr>
      in if tuple_gt (TextSpan_start self) (TextSpan_end self)
         then self\<lparr>start_line := end_line self, end_line := start_line self,
                   start_column := end_column self, end_column := start_column self\<rparr>
         else self)"

definition TextSpan_bool :: "TextSpan \<Rightarrow> bool" where
  "TextSpan_bool self = tuple_lt (TextSpan_start self) (TextSpan_end self)"

definition TextSpan_contains :: "TextSpan \<Rightarrow> TextSpan \<Rightarrow> bool" where
  "TextSpan_contains self other =
     (tuple_le (TextSpan_start self) (TextSpan_start other)
      \<and> tuple_le (TextSpan_end other) (TextSpan_end self))"

definition tuple_min :: "int \<times> int \<Rightarrow> int \<times> int \<Rightarrow> int \<times> int" where
  "tuple_min p q = (if tuple_lt q p then q else p)"

definition tuple_max :: "int \<times> int \<Rightarrow> int \<times> int \<Rightarrow> int \<times> int" where
  "tuple_max p q = (if tuple_gt q p then q else p)"

text \<open>\<open>TextSpan.cover\<close>: \<open>min\<close> and \<open>max\<close> of an empty sequence raise ValueError.\<close>

definition cover :: "TextSpan list \<Rightarrow> error + TextSpan" where
  "cover spans =
     (case spans of
        [] \<Rightarrow> Inl ValueError
      | s # ss \<Rightarrow>
          (let lo = foldl tuple_min (TextSpan_start s) (map TextSpan_start ss);
               hi = foldl tuple_max (TextSpan_end s) (map TextSpan_end ss)
           in Inr (TextSpan_init (fst lo) (snd lo) (fst hi) (snd hi))))"

section \<open>parsing.py: Token\<close>

text \<open>
  \<open>Token\<close> is an attrs class; \<open>channel\<close> and \<open>span\<close> are declared with
  \<open>cmp=False\<close>. The text of the end-of-file token is \<open>None\<close>, the default span
  is \<open>None\<close>.
\<close>

record Token =
  tok_t :: sym
  tok_text :: "string option"
  tok_channel :: int
  tok_span :: "TextSpan option"

text \<open>
  The generated \<open>__eq__\<close> compares the tuples of the attributes that take part
  in comparison, here \<open>(t, text)\<close>.
\<close>

definition Token_cmp_tuple :: "Token \<Rightarrow> sym \<times> string option" where
  "Token_cmp_tuple self = (tok_t self, tok_text self)"

definition Token_eq :: "Token \<Rightarrow> Token \<Rightarrow> bool" where
  "Token_eq self other = (Token_cmp_tuple self = Token_cmp_tuple other)"

section \<open>parsing.py: ReStream\<close>

definition CHANNEL_ALL :: int where "CHANNEL_ALL = - 1"
definition CHANNEL_DEFAULT :: int where "CHANNEL_DEFAULT = 0"
definition CHANNEL_HIDDEN :: int where "CHANNEL_HIDDEN = 1"
definition NORMAL_MODE :: int where "NORMAL_MODE = 0"

text \<open>
  A match object of Python's \<open>re\<close>, reduced to the two methods the code calls,
  \<open>group()\<close> and \<open>end()\<close>. A compiled pattern is its \<open>match(string, pos)\<close>
  method; \<open>re\<close> is the standard library, so patterns are parameters of the model.
\<close>

record Match =
  m_group :: string
  m_end :: int

type_synonym regex = "string \<Rightarrow> int \<Rightarrow> Match option"

text \<open>
  The stream: \<open>stream\<close> holds the lines the iterator has not yet yielded,
  \<open>current\<close> the line being read, \<open>line\<close> and \<open>column\<close> the position.
\<close>

record ReStream =
  stream :: "string list"
  current :: string
  line :: int
  column :: int

definition advance_line :: "ReStream \<Rightarrow> error + ReStream" where
  "advance_line self =
     (case stream self of
        [] \<Rightarrow> Inl StopIteration
      | l # ls \<Rightarrow> Inr (self\<lparr>stream := ls, current := l, line := line self + 1, column := 0\<rparr>))"

definition ReStream_init :: "string list \<Rightarrow> ReStream" where
  "ReStream_init lines =
     (let self = \<lparr>stream = lines, current = [], line = 0, column = 0\<rparr>
      in case advance_line self of
           Inr self' \<Rightarrow> self'
         | Inl e \<Rightarrow> self\<lparr>current := [], line := 1\<rparr>)"

definition assure_line :: "ReStream \<Rightarrow> error + ReStream" where
  "assure_line self =
     (if column self = int (length (current self)) then advance_line self else Inr self)"

definition ReStream_match :: "ReStream \<Rightarrow> regex \<Rightarrow> error + (Match option \<times> ReStream)" where
  "ReStream_match self re =
     (case assure_line self of
        Inl e \<Rightarrow> Inl e
      | Inr self' \<Rightarrow> Inr (re (current self') (column self'), self'))"

definition produce :: "ReStream \<Rightarrow> sym \<Rightarrow> Match \<Rightarrow> int \<Rightarrow> Token \<times> ReStream" where
  "produce self symbol m chan =
     (let token = \<lparr>tok_t = symbol, tok_text = Some (m_group m), tok_channel = chan,
                   tok_span = Some (TextSpan_init (line self) (column self) (line self) (m_end m))\<rparr>
      in (token, self\<lparr>column := m_end m\<rparr>))"

definition rewind :: "ReStream \<Rightarrow> Token \<Rightarrow> error + ReStream" where
  "rewind self token =
     (case tok_span token of
        None \<Rightarrow> Inl AttributeError
      | Some sp \<Rightarrow>
          if TextSpan_end sp = (line self, column self)
          then Inr (self\<lparr>column := start_column sp\<rparr>)
          else Inl (AssertionError []))"

definition produce_eof :: "ReStream \<Rightarrow> sym \<Rightarrow> Token" where
  "produce_eof self symbol =
     \<lparr>tok_t = symbol, tok_text = None, tok_channel = CHANNEL_ALL,
      tok_span = Some (TextSpan_init (line self) (column self) (line self) (column self))\<rparr>"

section \<open>parsing.py: Lexer\<close>

text \<open>The three tuple shapes \<open>Lexer.__init__\<close> accepts for a rule.\<close>

datatype lexrule =
    LexRule2 regex sym
  | LexRule3 int regex sym
  | LexRule4 int regex sym int

record Lexer =
  eof :: sym
  mode_rules :: "int \<rightharpoonup> (regex \<times> sym \<times> int) list"

fun lexrule_fields :: "lexrule \<Rightarrow> int \<times> regex \<times> sym \<times> int" where
  "lexrule_fields (LexRule2 pattern tt) = (NORMAL_MODE, pattern, tt, CHANNEL_DEFAULT)"
| "lexrule_fields (LexRule3 mode pattern tt) = (mode, pattern, tt, CHANNEL_DEFAULT)"
| "lexrule_fields (LexRule4 mode pattern tt chan) = (mode, pattern, tt, chan)"

definition add_lexrule ::
  "(int \<rightharpoonup> (regex \<times> sym \<times> int) list) \<Rightarrow> lexrule \<Rightarrow> (int \<rightharpoonup> (regex \<times> sym \<times> int) list)" where
  "add_lexrule mr mptc =
     (case lexrule_fields mptc of
        (mode, pattern, tt, chan) \<Rightarrow>
          (let rs = (case mr mode of None \<Rightarrow> [] | Some rs \<Rightarrow> rs)
           in mr(mode \<mapsto> rs @ [(pattern, tt, chan)])))"

definition Lexer_init :: "sym \<Rightarrow> lexrule list \<Rightarrow> Lexer" where
  "Lexer_init e rules = \<lparr>eof = e, mode_rules = foldl add_lexrule Map.empty rules\<rparr>"

text \<open>The \<open>for\<close> loop of \<open>Lexer.__call__\<close> and the \<open>assert False\<close> after it.\<close>

fun try_rules :: "(regex \<times> sym \<times> int) list \<Rightarrow> ReStream \<Rightarrow> error + (Token \<times> ReStream)" where
  "try_rules [] s = Inl (AssertionError ''no match!'')"
| "try_rules ((re, tt, chan) # rs) s =
     (case ReStream_match s re of
        Inl e \<Rightarrow> Inl e
      | Inr (None, s') \<Rightarrow> try_rules rs s'
      | Inr (Some m, s') \<Rightarrow> Inr (produce s' tt m chan))"

definition Lexer_call :: "Lexer \<Rightarrow> ReStream \<Rightarrow> int \<Rightarrow> error + (Token \<times> ReStream)" where
  "Lexer_call self s mode =
     (case assure_line s of
        Inl e \<Rightarrow> (if e = StopIteration then Inr (produce_eof s (eof self), s) else Inl e)
      | Inr s1 \<Rightarrow>
          (case mode_rules self mode of
             None \<Rightarrow> Inl KeyError
           | Some rs \<Rightarrow> try_rules rs s1))"

text \<open>
  A concrete pattern for examples: \<open>re.compile(re.escape(p))\<close>, which matches
  exactly the literal \<open>p\<close> at the given position.
\<close>

definition lit_re :: "string \<Rightarrow> regex" where
  "lit_re p cur col =
     (if 0 \<le> col \<and> take (length p) (drop (nat col) cur) = p
      then Some \<lparr>m_group = p, m_end = col + int (length p)\<rparr>
      else None)"

definition small_lexer_x :: Lexer where
  "small_lexer_x = Lexer_init (Tok ''EOF'') [LexRule2 (lit_re ''x'') (Tok ''X'')]"

section \<open>AST values\<close>

text \<open>
  Modelled from the spec: the class \<open>AstNode\<close> (module \<open>jeff65/ast.py\<close>) is
  not among the sources; the spec gives it as \<open>(kind, position, attrs:
  map<string, any>, children: ordered list)\<close>, a plain value with no truth
  value or length of its own. Attribute values and children are Python values:
  \<open>None\<close>, ints, strings, dicts with string keys, the two storage classes of
  \<open>gold/storage.py\<close>, the \<open>AsmRun\<close> of \<open>gold/asm.py\<close> (its bytes as ints
  from 0 to 255) and nodes.
\<close>

datatype pyval =
    PyNoneV
  | PyInt int
  | PyStr string
  | PyDict "(string \<times> pyval) list"
  | AbsoluteStorage int int
  | ImmediateStorage int int
  | AsmRun "int list"
  | AstNode string pyval "(string \<times> pyval) list" "pyval list"

text \<open>Python's truth value of an object, as \<open>not value\<close> tests it.\<close>

fun py_truthy :: "pyval \<Rightarrow> bool" where
  "py_truthy PyNoneV = False"
| "py_truthy (PyInt i) = (i \<noteq> 0)"
| "py_truthy (PyStr s) = (s \<noteq> [])"
| "py_truthy (PyDict d) = (d \<noteq> [])"
| "py_truthy (AbsoluteStorage a w) = True"
| "py_truthy (ImmediateStorage v w) = True"
| "py_truthy (AsmRun d) = True"
| "py_truthy (AstNode k p a c) = True"

text \<open>\<open>node.attrs\<close> and \<open>node.attrs[key]\<close>.\<close>

fun node_attrs :: "pyval \<Rightarrow> error + (string \<times> pyval) list" where
  "node_attrs (AstNode k p a c) = Inr a"
| "node_attrs v = Inl AttributeError"

fun node_children :: "pyval \<Rightarrow> error + pyval list" where
  "node_children (AstNode k p a c) = Inr c"
| "node_children v = Inl AttributeError"

definition ebind :: "error + 'a \<Rightarrow> ('a \<Rightarrow> error + 'b) \<Rightarrow> error + 'b" where
  "ebind x f = (case x of Inl e \<Rightarrow> Inl e | Inr v \<Rightarrow> f v)"

definition getitem :: "(string \<times> pyval) list \<Rightarrow> string \<Rightarrow> error + pyval" where
  "getitem d k = (case map_of d k of None \<Rightarrow> Inl KeyError | Some v \<Rightarrow> Inr v)"

definition node_attr :: "pyval \<Rightarrow> string \<Rightarrow> error + pyval" where
  "node_attr node k = ebind (node_attrs node) (\<lambda>a. getitem a k)"

section \<open>Decimal text of an int\<close>

definition digit_char :: "nat \<Rightarrow> char" where
  "digit_char n = ''0123456789'' ! (n mod 10)"

function str_nat :: "nat \<Rightarrow> string" where
  "str_nat n = (if n < 10 then [digit_char n] else str_nat (n div 10) @ [digit_char n])"
  by pat_completeness auto
termination
  by (relation "measure id") auto

declare str_nat.simps [simp del]

text \<open>\<open>"{}".format(i)\<close> for an int \<open>i\<close>.\<close>

definition str_int :: "int \<Rightarrow> string" where
  "str_int i = (if i < 0 then CHR ''-'' # str_nat (nat (- i)) else str_nat (nat i))"

section \<open>gold/asm.py\<close>

text \<open>
  \<open>struct.pack\<close> with the formats \<open><BB\<close> and \<open><BH\<close>: an unsigned byte
  must lie in 0..255 and an unsigned short in 0..65535, else \<open>struct.error\<close>;
  \<open><\<close> writes the short low byte first.
\<close>

definition pack_B :: "int \<Rightarrow> error + int list" where
  "pack_B v = (if 0 \<le> v \<and> v \<le> 255 then Inr [v] else Inl StructError)"

definition pack_H :: "int \<Rightarrow> error + int list" where
  "pack_H v = (if 0 \<le> v \<and> v \<le> 65535 then Inr [v mod 256, v div 256] else Inl StructError)"

definition struct_pack_BB :: "int \<Rightarrow> int \<Rightarrow> error + int list" where
  "struct_pack_BB a b = ebind (pack_B a) (\<lambda>x. ebind (pack_B b) (\<lambda>y. Inr (x @ y)))"

definition struct_pack_BH :: "int \<Rightarrow> int \<Rightarrow> error + int list" where
  "struct_pack_BH a b = ebind (pack_B a) (\<lambda>x. ebind (pack_H b) (\<lambda>y. Inr (x @ y)))"

text \<open>The four methods of \<open>AssembleWithRelocations\<close>.\<close>

definition enter_lda :: "pyval \<Rightarrow> error + pyval" where
  "enter_lda node =
     ebind (node_attr node ''storage'') (\<lambda>s.
       case s of
         ImmediateStorage v w \<Rightarrow>
           if w \<noteq> 1
           then Inl (AssemblyError (''LDA loads one byte ('' @ str_int w @ '' given)''))
           else ebind (struct_pack_BB 0xa9 v) (\<lambda>d. Inr (AsmRun d))
       | _ \<Rightarrow> Inl NotImplementedError)"

definition enter_sta :: "pyval \<Rightarrow> error + pyval" where
  "enter_sta node =
     ebind (node_attr node ''storage'') (\<lambda>s.
       case s of
         AbsoluteStorage a w \<Rightarrow>
           if w \<noteq> 1
           then Inl (AssemblyError (''STA stores one byte ('' @ str_int w @ '' given)''))
           else ebind (struct_pack_BH 0x8d a) (\<lambda>d. Inr (AsmRun d))
       | _ \<Rightarrow> Inl NotImplementedError)"

definition enter_jmp :: "pyval \<Rightarrow> error + pyval" where
  "enter_jmp node =
     ebind (node_attr node ''storage'') (\<lambda>s.
       case s of
         AbsoluteStorage a w \<Rightarrow> ebind (struct_pack_BH 0x4c a) (\<lambda>d. Inr (AsmRun d))
       | _ \<Rightarrow> Inl NotImplementedError)"

definition enter_rts :: "pyval \<Rightarrow> error + pyval" where
  "enter_rts node = Inr (AsmRun [0x60])"

text \<open>The node constructors \<open>lda\<close>, \<open>sta\<close>, \<open>jmp\<close> and \<open>rts\<close>, with their asserts.\<close>

definition lda :: "pyval \<Rightarrow> pyval \<Rightarrow> error + pyval" where
  "lda position arg =
     (case arg of
        ImmediateStorage v w \<Rightarrow>
          Inr (AstNode ''lda'' position [(''storage'', arg), (''size'', PyInt 2)] [])
      | _ \<Rightarrow> Inl (AssertionError []))"

definition sta :: "pyval \<Rightarrow> pyval \<Rightarrow> error + pyval" where
  "sta position arg =
     (case arg of
        AbsoluteStorage a w \<Rightarrow>
          Inr (AstNode ''sta'' position [(''storage'', arg), (''size'', PyInt 3)] [])
      | _ \<Rightarrow> Inl (AssertionError []))"

definition jmp :: "pyval \<Rightarrow> pyval \<Rightarrow> error + pyval" where
  "jmp position arg =
     (case arg of
        AbsoluteStorage a w \<Rightarrow>
          Inr (AstNode ''jmp'' position [(''storage'', arg), (''size'', PyInt 3)] [])
      | _ \<Rightarrow> Inl (AssertionError []))"

definition rts :: "pyval \<Rightarrow> pyval" where
  "rts position = AstNode ''rts'' position [(''size'', PyInt 1)] []"

section \<open>gold/passes/binding.py\<close>

text \<open>
  Modelled from the spec: \<open>AstNode.get_attr_default\<close> is not among the
  sources. It returns the attribute when the node has it and the default
  otherwise (which it also stores in the node, for \<open>bind_constant\<close> to fill).
\<close>

definition get_attr_default :: "pyval \<Rightarrow> string \<Rightarrow> pyval \<Rightarrow> error + pyval" where
  "get_attr_default scope attr dflt =
     ebind (node_attrs scope) (\<lambda>a. case map_of a attr of None \<Rightarrow> Inr dflt | Some v \<Rightarrow> Inr v)"

text \<open>
  \<open>ScopedPass.look_up_constant\<close>: the scopes are searched innermost first.
  The attribute \<open>known_constants\<close> is a dict whenever it is present (only
  \<open>bind_constant\<close> writes it); \<open>name in x\<close> on a value that is no container
  is a TypeError.
\<close>

fun look_up_in :: "pyval list \<Rightarrow> string \<Rightarrow> error + pyval" where
  "look_up_in [] name = Inr PyNoneV"
| "look_up_in (scope # outer) name =
     ebind (get_attr_default scope ''known_constants'' (PyDict [])) (\<lambda>known_constants.
       case known_constants of
         PyDict d \<Rightarrow>
           (case map_of d name of
              Some v \<Rightarrow> Inr v
            | None \<Rightarrow> look_up_in outer name)
       | _ \<Rightarrow> Inl TypeError)"

definition look_up_constant :: "pyval list \<Rightarrow> string \<Rightarrow> error + pyval" where
  "look_up_constant scopes name = look_up_in (rev scopes) name"

text \<open>
  \<open>ScopedPass.bind_constant\<close>: writes into the dict of the innermost scope
  (\<open>scopes[-1]\<close>), which \<open>get_attr_default\<close> creates when it is missing.
\<close>

definition bind_constant :: "pyval list \<Rightarrow> string \<Rightarrow> pyval \<Rightarrow> error + pyval list" where
  "bind_constant scopes name v =
     (case rev scopes of
        [] \<Rightarrow> Inl IndexError
      | scope # outer \<Rightarrow>
          (case scope of
             AstNode k p a c \<Rightarrow>
               ebind (get_attr_default scope ''known_constants'' (PyDict [])) (\<lambda>known_constants.
                 case known_constants of
                   PyDict d \<Rightarrow>
                     Inr (rev outer @
                          [AstNode k p (AList.update ''known_constants''
                                          (PyDict (AList.update name v d)) a) c])
                 | _ \<Rightarrow> Inl TypeError)
           | _ \<Rightarrow> Inl AttributeError))"

text \<open>
  \<open>EvaluateConstants.exit_constant\<close>: binds the name of the \<open>constant\<close> node
  to its first child and removes the node (returns the empty list). The result
  is the list of replacement nodes and the scopes after the binding. Names are
  strings.
\<close>

definition exit_constant :: "pyval list \<Rightarrow> pyval \<Rightarrow> error + (pyval list \<times> pyval list)" where
  "exit_constant scopes node =
     ebind (node_attr node ''name'') (\<lambda>name.
     ebind (node_children node) (\<lambda>cs.
       case cs of
         [] \<Rightarrow> Inl IndexError
       | c0 # rest \<Rightarrow>
           (case name of
              PyStr n \<Rightarrow> ebind (bind_constant scopes n c0) (\<lambda>scopes'. Inr ([], scopes'))
            | _ \<Rightarrow> Inl TypeError)))"

text \<open>\<open>ResolveConstants.exit_identifier\<close>.\<close>

definition exit_identifier :: "pyval list \<Rightarrow> pyval \<Rightarrow> error + pyval" where
  "exit_identifier scopes node =
     ebind (node_attr node ''name'') (\<lambda>name.
       case name of
         PyStr n \<Rightarrow>
           ebind (look_up_constant scopes n) (\<lambda>v.
             if \<not> py_truthy v then Inr node else Inr v)
       | _ \<Rightarrow> Inl TypeError)"

section \<open>parsing.py: Rule and Grammar\<close>

record Rule =
  lhs :: sym
  rhs :: "sym list"
  prec :: "int option"
  rassoc :: bool
  rule_mode :: int
  pointer :: "nat option"

text \<open>
  \<open>rules\<close> is a list in the grammar the user writes and a set in the extended
  grammar; the list gives the order in which \<open>for rule in self.rules\<close> visits it.
\<close>

record Grammar =
  rules :: "Rule list"
  start_symbol :: sym
  end_symbols :: "sym list"

text \<open>
  Subscripts \<open>x[0]\<close>, \<open>x[1]\<close> and \<open>x[2]\<close> of a symbol: a tuple gives its
  component, a \<open>str\<close> its character (IndexError when it is too short), any
  other value is not subscriptable.
\<close>

fun index0 :: "sym \<Rightarrow> error + sym" where
  "index0 (Triple a b c) = Inr a"
| "index0 (Str s) = (if 0 < length s then Inr (Str [s ! 0]) else Inl IndexError)"
| "index0 x = Inl TypeError"

fun index1 :: "sym \<Rightarrow> error + sym" where
  "index1 (Triple a b c) = Inr b"
| "index1 (Str s) = (if 1 < length s then Inr (Str [s ! 1]) else Inl IndexError)"
| "index1 x = Inl TypeError"

fun index2 :: "sym \<Rightarrow> error + sym" where
  "index2 (Triple a b c) = Inr c"
| "index2 (Str s) = (if 2 < length s then Inr (Str [s ! 2]) else Inl IndexError)"
| "index2 x = Inl TypeError"

text \<open>\<open>Grammar.is_terminal\<close>.\<close>

fun is_terminal :: "sym \<Rightarrow> bool" where
  "is_terminal (Str s) = False"
| "is_terminal (Triple a b c) = is_terminal b"
| "is_terminal x = True"

text \<open>\<open>Grammar.symbols\<close>, a set; the list is the order in which it is iterated.\<close>

definition symbols :: "Grammar \<Rightarrow> sym list" where
  "symbols g = remdups (concat (map (\<lambda>r. lhs r # rhs r) (rules g)))"

text \<open>\<open>Rule.parent\<close>.\<close>

fun map_index1 :: "sym list \<Rightarrow> error + sym list" where
  "map_index1 [] = Inr []"
| "map_index1 (s # ss) =
     ebind (index1 s) (\<lambda>x. ebind (map_index1 ss) (\<lambda>xs. Inr (x # xs)))"

definition parent :: "Rule \<Rightarrow> error + Rule" where
  "parent self =
     ebind (index1 (lhs self)) (\<lambda>l.
     ebind (map_index1 (rhs self)) (\<lambda>r. Inr (self\<lparr>lhs := l, rhs := r\<rparr>)))"

section \<open>parsing.py: FIRST and FOLLOW sets\<close>

text \<open>
  \<open>firstsets\<close> and \<open>followsets\<close> are dicts from symbols to sets of symbols.
  \<open>d[k].update(s)\<close> reads the key first, so a missing key is a KeyError.
\<close>

type_synonym symdict = "sym \<rightharpoonup> sym set"

definition dict_get :: "symdict \<Rightarrow> sym \<Rightarrow> error + sym set" where
  "dict_get d k = (case d k of None \<Rightarrow> Inl KeyError | Some v \<Rightarrow> Inr v)"

definition dict_update :: "symdict \<Rightarrow> sym \<Rightarrow> sym set \<Rightarrow> error + symdict" where
  "dict_update d k s = (case d k of None \<Rightarrow> Inl KeyError | Some v \<Rightarrow> Inr (d(k \<mapsto> v \<union> s)))"

text \<open>The first loop of \<open>build_firstsets\<close>: identity sets for terminals.\<close>

fun prepopulate_first :: "sym list \<Rightarrow> symdict \<Rightarrow> error + symdict" where
  "prepopulate_first [] d = Inr d"
| "prepopulate_first (sy # syms) d =
     (if is_terminal sy
      then (case index1 sy of
              Inr x \<Rightarrow> prepopulate_first syms (d(sy \<mapsto> {x}))
            | Inl e \<Rightarrow> if e = TypeError then prepopulate_first syms (d(sy \<mapsto> {sy}))
                       else Inl e)
      else prepopulate_first syms (d(sy \<mapsto> {})))"

text \<open>The second loop: rules 1 and 2, and the rules kept for rule 3.\<close>

fun first_rules12 :: "Rule list \<Rightarrow> symdict \<Rightarrow> Rule list \<Rightarrow> error + (symdict \<times> Rule list)" where
  "first_rules12 [] d nzrules = Inr (d, nzrules)"
| "first_rules12 (rule # rs) d nzrules =
     (case rhs rule of
        [] \<Rightarrow> ebind (dict_update d (lhs rule) {EMPTY}) (\<lambda>d'. first_rules12 rs d' nzrules)
      | x # xs \<Rightarrow>
          if is_terminal x
          then ebind (dict_get d x) (\<lambda>fx.
               ebind (dict_update d (lhs rule) fx) (\<lambda>d'. first_rules12 rs d' nzrules))
          else first_rules12 rs d (nzrules @ [rule]))"

text \<open>
  The inner \<open>for symbol in rule.rhs\<close> with its \<open>break\<close> and its \<open>else\<close>
  clause, for a rule with left-hand side \<open>l\<close>.
\<close>

fun first_walk :: "sym \<Rightarrow> sym list \<Rightarrow> symdict \<Rightarrow> error + symdict" where
  "first_walk l [] d = dict_update d l {EMPTY}"
| "first_walk l (symbol # rest) d =
     ebind (dict_get d symbol) (\<lambda>fs.
       if EMPTY \<notin> fs then dict_update d l fs
       else ebind (dict_update d l (fs - {EMPTY})) (first_walk l rest))"

text \<open>One run of \<open>for rule in nzrules\<close>; the flag is \<open>updated\<close>.\<close>

fun first_pass :: "Rule list \<Rightarrow> symdict \<Rightarrow> bool \<Rightarrow> error + (symdict \<times> bool)" where
  "first_pass [] d updated = Inr (d, updated)"
| "first_pass (rule # rs) d updated =
     ebind (dict_get d (lhs rule)) (\<lambda>old.
     ebind (first_walk (lhs rule) (rhs rule) d) (\<lambda>d'.
     ebind (dict_get d' (lhs rule)) (\<lambda>new.
       first_pass rs d' (if card new > card old then True else updated))))"

partial_function (option) first_loop :: "Rule list \<Rightarrow> symdict \<Rightarrow> (error + symdict) option" where
  "first_loop nzrules d =
     (case first_pass nzrules d False of
        Inl e \<Rightarrow> Some (Inl e)
      | Inr (d', updated) \<Rightarrow> if updated then first_loop nzrules d' else Some (Inr d'))"

declare first_loop.simps [code]

definition build_firstsets :: "Grammar \<Rightarrow> (error + symdict) option" where
  "build_firstsets g =
     (case prepopulate_first (symbols g) Map.empty of
        Inl e \<Rightarrow> Some (Inl e)
      | Inr d0 \<Rightarrow>
          (case first_rules12 (rules g) d0 [] of
             Inl e \<Rightarrow> Some (Inl e)
           | Inr (d1, nzrules) \<Rightarrow> first_loop nzrules d1))"

text \<open>
  The first loop of \<open>build_followsets\<close>. The set comprehension over the end
  symbols stops at the first subscript that raises; a TypeError falls back to
  the end symbols themselves.
\<close>

definition end_set :: "Grammar \<Rightarrow> error + sym set" where
  "end_set g =
     (case map_index1 (end_symbols g) of
        Inr xs \<Rightarrow> Inr (set xs)
      | Inl e \<Rightarrow> if e = TypeError then Inr (set (end_symbols g)) else Inl e)"

fun prepopulate_follow :: "Grammar \<Rightarrow> sym list \<Rightarrow> symdict \<Rightarrow> error + symdict" where
  "prepopulate_follow g [] d = Inr d"
| "prepopulate_follow g (sy # syms) d =
     (if sy = start_symbol g
      then ebind (end_set g) (\<lambda>es. prepopulate_follow g syms (d(sy \<mapsto> es)))
      else prepopulate_follow g syms (d(sy \<mapsto> {})))"

text \<open>
  The second loop, for one rule: \<open>for k in range(len(rule.rhs) - 1)\<close> adds
  the first set of the symbol at \<open>k + 1\<close> to the follow set of a nonterminal
  at \<open>k\<close>.
\<close>

fun follow_adjacent :: "symdict \<Rightarrow> sym list \<Rightarrow> symdict \<Rightarrow> error + symdict" where
  "follow_adjacent firstsets (a # b # rest) d =
     (if \<not> is_terminal a
      then ebind (dict_get firstsets b) (\<lambda>fb.
           ebind (dict_update d a fb) (follow_adjacent firstsets (b # rest)))
      else follow_adjacent firstsets (b # rest) d)"
| "follow_adjacent firstsets xs d = Inr d"

fun follow_rules :: "symdict \<Rightarrow> Rule list \<Rightarrow> symdict \<Rightarrow> error + symdict" where
  "follow_rules firstsets [] d = Inr d"
| "follow_rules firstsets (rule # rs) d =
     ebind (follow_adjacent firstsets (rhs rule) d) (follow_rules firstsets rs)"

text \<open>One run of \<open>for rule in self.rules\<close> inside the \<open>while updated\<close> loop.\<close>

fun follow_pass :: "Rule list \<Rightarrow> symdict \<Rightarrow> bool \<Rightarrow> error + (symdict \<times> bool)" where
  "follow_pass [] d updated = Inr (d, updated)"
| "follow_pass (rule # rs) d updated =
     (if rhs rule = [] then follow_pass rs d updated
      else ebind (index1 (last (rhs rule))) (\<lambda>x.
        if \<not> is_terminal x
        then ebind (dict_get d (last (rhs rule))) (\<lambda>old.
             ebind (dict_get d (lhs rule)) (\<lambda>fl.
             ebind (dict_update d (last (rhs rule)) fl) (\<lambda>d'.
             ebind (dict_get d' (last (rhs rule))) (\<lambda>new.
               follow_pass rs d' (if card new > card old then True else updated)))))
        else follow_pass rs d updated))"

partial_function (option) follow_loop :: "Rule list \<Rightarrow> symdict \<Rightarrow> (error + symdict) option" where
  "follow_loop rs d =
     (case follow_pass rs d False of
        Inl e \<Rightarrow> Some (Inl e)
      | Inr (d', updated) \<Rightarrow> if updated then follow_loop rs d' else Some (Inr d'))"

declare follow_loop.simps [code]

definition build_followsets :: "Grammar \<Rightarrow> (error + symdict) option" where
  "build_followsets g =
     (case build_firstsets g of
        None \<Rightarrow> None
      | Some (Inl e) \<Rightarrow> Some (Inl e)
      | Some (Inr firstsets) \<Rightarrow>
          (case prepopulate_follow g (symbols g) Map.empty of
             Inl e \<Rightarrow> Some (Inl e)
           | Inr d0 \<Rightarrow>
               (case follow_rules firstsets (rules g) d0 of
                  Inl e \<Rightarrow> Some (Inl e)
                | Inr d1 \<Rightarrow> follow_loop (rules g) d1)))"

text \<open>
  The extended grammar that \<open>build_extended_grammar\<close> makes of the grammar
  \<open>S \<rightarrow> R\<close>, \<open>R \<rightarrow> D B c\<close>, \<open>D \<rightarrow> d\<close>, \<open>B \<rightarrow> \<epsilon>\<close> with the end symbol
  \<open>$\<close>. The item sets are 0: \<open>S \<rightarrow> .R, R \<rightarrow> .D B c, D \<rightarrow> .d\<close>; 1 (after R):
  \<open>S \<rightarrow> R.\<close>; 2 (after D): \<open>R \<rightarrow> D.B c, B \<rightarrow> .\<close>; 3 (after d): \<open>D \<rightarrow> d.\<close>;
  4 (after B): \<open>R \<rightarrow> D B.c\<close>; 5 (after c): \<open>R \<rightarrow> D B c.\<close>.
\<close>

definition xrule :: "sym \<Rightarrow> sym list \<Rightarrow> Rule" where
  "xrule l r = \<lparr>lhs = l, rhs = r, prec = None, rassoc = False, rule_mode = 0, pointer = None\<rparr>"

definition xS :: sym where "xS = Triple (StateNo 0) (Str ''S'') END"
definition xR :: sym where "xR = Triple (StateNo 0) (Str ''R'') (StateNo 1)"
definition xD :: sym where "xD = Triple (StateNo 0) (Str ''D'') (StateNo 2)"
definition xB :: sym where "xB = Triple (StateNo 2) (Str ''B'') (StateNo 4)"
definition x_c :: sym where "x_c = Triple (StateNo 4) (Tok ''c'') (StateNo 5)"
definition x_d :: sym where "x_d = Triple (StateNo 0) (Tok ''d'') (StateNo 3)"

definition nullable_grammar :: Grammar where
  "nullable_grammar =
     \<lparr>rules = [xrule xS [xR], xrule xR [xD, xB, x_c], xrule xD [x_d], xrule xB []],
      start_symbol = xS,
      end_symbols = [Triple PyNone (Tok ''$'') PyNone]\<rparr>"

text \<open>
  FIRST of a sequence of symbols as the spec defines it: the first sets of
  the leading symbols without \<open>\<epsilon>\<close> as long as they derive \<open>\<epsilon>\<close>, and \<open>\<epsilon>\<close>
  itself when all of them do.
\<close>

fun spec_first_seq :: "symdict \<Rightarrow> sym list \<Rightarrow> sym set" where
  "spec_first_seq firstsets [] = {EMPTY}"
| "spec_first_seq firstsets (x # xs) =
     (case firstsets x of
        None \<Rightarrow> {}
      | Some fx \<Rightarrow> if EMPTY \<in> fx then (fx - {EMPTY}) \<union> spec_first_seq firstsets xs else fx)"

section \<open>parsing.py: assembly of the action/goto table in build_parser\<close>

text \<open>
  The values of \<open>agtable\<close>: the tuples \<open>('shift', None, t)\<close>,
  \<open>('reduce', lhs, n)\<close> and \<open>('accept', None, None)\<close>, and a bare state
  number for a goto. The dict is an association list in insertion order.
\<close>

datatype action = Shift nat | Reduce sym nat | Accept | Goto nat

type_synonym agtable = "((nat \<times> sym) \<times> action) list"

definition list_get :: "'a list \<Rightarrow> nat \<Rightarrow> error + 'a" where
  "list_get xs i = (if i < length xs then Inr (xs ! i) else Inl IndexError)"

text \<open>
  The loop over \<open>translation_table.items()\<close>: shifts for terminals, gotos for
  the other symbols.
\<close>

definition initial_agtable :: "((nat \<times> sym) \<times> nat) list \<Rightarrow> agtable" where
  "initial_agtable translation_table =
     foldl (\<lambda>ag ((f, s), t). AList.update (f, s) (if is_terminal s then Shift t else Goto t) ag)
       [] translation_table"

text \<open>
  The loop over the extended rules that merges the final sets. A rule's final
  state is used as a list index, so it has to be a state number.
\<close>

definition final_state :: "Rule \<Rightarrow> error + nat" where
  "final_state rule =
     ebind (if rhs rule = [] then index0 (lhs rule) else index2 (last (rhs rule))) (\<lambda>f.
       case f of StateNo n \<Rightarrow> Inr n | _ \<Rightarrow> Inl TypeError)"

fun merge_finalsets ::
  "symdict \<Rightarrow> Rule list \<Rightarrow> Rule option list \<times> sym set list
     \<Rightarrow> error + (Rule option list \<times> sym set list)" where
  "merge_finalsets followsets [] (finalset_rules, finalset_followsets) =
     Inr (finalset_rules, finalset_followsets)"
| "merge_finalsets followsets (rule # rs) (finalset_rules, finalset_followsets) =
     ebind (final_state rule) (\<lambda>final.
     ebind (list_get finalset_rules final) (\<lambda>old.
     ebind (parent rule) (\<lambda>p.
       if old \<noteq> None \<and> old \<noteq> Some p then Inl (AssertionError ''reduce/reduce'')
       else
         ebind (dict_get followsets (lhs rule)) (\<lambda>fl.
           merge_finalsets followsets rs
             (finalset_rules[final := Some p],
              finalset_followsets[final := finalset_followsets ! final \<union> fl])))))"

text \<open>
  The third component of the entry found at \<open>(k, symbol)\<close>, used as the index
  of an item set: the target state of a shift.
\<close>

fun shift_index_of :: "action \<Rightarrow> error + nat" where
  "shift_index_of (Shift t) = Inr t"
| "shift_index_of (Reduce l n) = Inr n"
| "shift_index_of Accept = Inl TypeError"
| "shift_index_of (Goto t) = Inl TypeError"

text \<open>\<open>[i for i in items if i.pointer > 0]\<close>; a missing pointer cannot be compared.\<close>

fun partials :: "Rule list \<Rightarrow> error + Rule list" where
  "partials [] = Inr []"
| "partials (i # items) =
     (case pointer i of
        None \<Rightarrow> Inl TypeError
      | Some n \<Rightarrow> ebind (partials items) (\<lambda>ps. Inr (if n > 0 then i # ps else ps)))"

text \<open>
  The entry that a reduction by \<open>rule\<close> on \<open>symbol\<close> writes: accept for the
  start symbol on an end symbol, a reduce otherwise.
\<close>

definition reduction_entry :: "Grammar \<Rightarrow> Rule \<Rightarrow> sym \<Rightarrow> action" where
  "reduction_entry g rule symbol =
     (if lhs rule = start_symbol g \<and> symbol \<in> set (end_symbols g) then Accept
      else Reduce (lhs rule) (length (rhs rule)))"

text \<open>
  The resolution of a shift/reduce conflict at \<open>(k, symbol)\<close>: \<open>True\<close> when
  the loop goes on to the next symbol (\<open>continue\<close>) and leaves the shift. The
  texts of the two rules in the message of the second assert are left out.
\<close>

definition resolve_conflict ::
  "Rule list list \<Rightarrow> Rule option list \<Rightarrow> nat \<Rightarrow> action \<Rightarrow> error + bool" where
  "resolve_conflict itemsets finalset_rules k entry =
     ebind (shift_index_of entry) (\<lambda>shift_index.
     ebind (list_get itemsets shift_index) (\<lambda>items.
     ebind (partials items) (\<lambda>ps.
       case ps of
         [shift_rule] \<Rightarrow>
           (case prec shift_rule of
              None \<Rightarrow> Inl (AssertionError ''shift/reduce'')
            | Some sp \<Rightarrow>
                ebind (list_get finalset_rules k) (\<lambda>fr.
                  case fr of
                    None \<Rightarrow> Inl AttributeError
                  | Some red \<Rightarrow>
                      (case prec red of
                         None \<Rightarrow> Inl (AssertionError ''shift/reduce'')
                       | Some rp \<Rightarrow> Inr (sp > rp \<or> (rassoc shift_rule \<and> sp = rp)))))
       | _ \<Rightarrow> Inl (AssertionError ''shift/reduce (GENERATOR BUG)''))))"

text \<open>The body of the loop \<open>for symbol in followset\<close> for the final state \<open>k\<close>.\<close>

definition add_reduction ::
  "Grammar \<Rightarrow> Rule list list \<Rightarrow> Rule option list \<Rightarrow> agtable \<Rightarrow> nat \<Rightarrow> sym \<Rightarrow> error + agtable" where
  "add_reduction g itemsets finalset_rules ag k symbol =
     ebind (case map_of ag (k, symbol) of
              None \<Rightarrow> Inr False
            | Some entry \<Rightarrow> resolve_conflict itemsets finalset_rules k entry) (\<lambda>keep_shift.
       if keep_shift then Inr ag
       else
         ebind (list_get finalset_rules k) (\<lambda>fr.
           case fr of
             None \<Rightarrow> Inl AttributeError
           | Some red \<Rightarrow> Inr (AList.update (k, symbol) (reduction_entry g red symbol) ag)))"

text \<open>
  The two nested loops that add the merged reductions. \<open>iter\<close> gives the
  order in which a set of symbols is iterated.
\<close>

fun add_reductions_for ::
  "Grammar \<Rightarrow> Rule list list \<Rightarrow> Rule option list \<Rightarrow> nat \<Rightarrow> sym list \<Rightarrow> agtable \<Rightarrow> error + agtable" where
  "add_reductions_for g itemsets finalset_rules k [] ag = Inr ag"
| "add_reductions_for g itemsets finalset_rules k (symbol # rest) ag =
     ebind (add_reduction g itemsets finalset_rules ag k symbol)
       (add_reductions_for g itemsets finalset_rules k rest)"

fun add_reductions ::
  "Grammar \<Rightarrow> Rule list list \<Rightarrow> Rule option list \<Rightarrow> (sym set \<Rightarrow> sym list)
     \<Rightarrow> nat \<Rightarrow> sym set list \<Rightarrow> agtable \<Rightarrow> error + agtable" where
  "add_reductions g itemsets finalset_rules iter k [] ag = Inr ag"
| "add_reductions g itemsets finalset_rules iter k (followset # rest) ag =
     ebind (add_reductions_for g itemsets finalset_rules k (iter followset) ag)
       (add_reductions g itemsets finalset_rules iter (Suc k) rest)"

text \<open>
  The table assembly of \<open>build_parser\<close>, from the translation table, its item
  sets, the rules of the extended grammar and its follow sets.
\<close>

definition assemble_agtable ::
  "Grammar \<Rightarrow> ((nat \<times> sym) \<times> nat) list \<Rightarrow> Rule list list \<Rightarrow> Rule list \<Rightarrow> symdict
     \<Rightarrow> (sym set \<Rightarrow> sym list) \<Rightarrow> error + agtable" where
  "assemble_agtable g translation_table itemsets extended_rules followsets iter =
     ebind (merge_finalsets followsets extended_rules
              (replicate (length itemsets) None, replicate (length itemsets) {}))
       (\<lambda>(finalset_rules, finalset_followsets).
          add_reductions g itemsets finalset_rules iter 0 finalset_followsets
            (initial_agtable translation_table))"

section \<open>parsing.py: Parser\<close>

datatype Parser =
  Parser (agtable: agtable) (modes: "int list") (hidden: "(int \<times> Parser) list") (channel: int)

text \<open>
  An entry of the output stack is a token or a value returned by
  \<open>make_node\<close> (a Python value), paired with its span. \<open>next_token\<close>
  and \<open>make_node\<close> are the caller's; \<open>str()\<close> of a token and of a symbol,
  which the error message uses, depend on the caller's token types and are
  parameters too.
\<close>

type_synonym output_entry = "(Token + pyval) \<times> TextSpan option"

type_synonym next_token_fn = "ReStream \<Rightarrow> int \<Rightarrow> error + (Token \<times> ReStream)"

type_synonym make_node_fn = "sym \<Rightarrow> TextSpan \<Rightarrow> (Token + pyval) list \<Rightarrow> int \<Rightarrow> pyval"

record printer =
  str_token :: "Token \<Rightarrow> string"
  str_symbol :: "sym \<Rightarrow> string"

text \<open>\<open>"\n".join(msg)\<close>.\<close>

fun join_lines :: "string list \<Rightarrow> string" where
  "join_lines [] = []"
| "join_lines [l] = l"
| "join_lines (l # ls) = l @ [CHR 0x0A] @ join_lines ls"

text \<open>
  The symbols that the message lists: \<open>for state, token in self.agtable\<close>
  keeps the second component of every key whose state is the top state.
\<close>

definition expected_symbols :: "agtable \<Rightarrow> nat \<Rightarrow> sym list" where
  "expected_symbols ag st = map (snd \<circ> fst) (filter (\<lambda>((state, token), a). state = st) ag)"

definition parse_error_message :: "printer \<Rightarrow> agtable \<Rightarrow> nat \<Rightarrow> Token \<Rightarrow> string" where
  "parse_error_message pr ag st lookahead =
     join_lines ((''Got '' @ str_token pr lookahead @ '' but expected one of:'')
                 # map (\<lambda>token. ''  '' @ str_symbol pr token) (expected_symbols ag st))"

text \<open>The spans of the entries that a reduction covers; a token may have no span.\<close>

fun entry_spans :: "output_entry list \<Rightarrow> error + TextSpan list" where
  "entry_spans [] = Inr []"
| "entry_spans ((c, sp) # es) =
     (case sp of
        None \<Rightarrow> Inl AttributeError
      | Some s \<Rightarrow> ebind (entry_spans es) (\<lambda>ss. Inr (s # ss)))"

text \<open>
  The first half of the \<open>reduce\<close> branch: the children, the span, and the two
  stacks after the \<open>del\<close> statements. \<open>zip(*[])\<close> cannot be unpacked into two.
\<close>

definition reduce_pop ::
  "nat \<Rightarrow> output_entry list \<Rightarrow> nat list \<Rightarrow> Token
     \<Rightarrow> error + ((Token + pyval) list \<times> TextSpan \<times> output_entry list \<times> nat list)" where
  "reduce_pop arg output set_stack lookahead =
     (if arg > 0
      then (let popped = drop (length output - arg) output
            in if popped = [] then Inl ValueError
               else ebind (entry_spans popped) (\<lambda>spans.
                    ebind (cover spans) (\<lambda>span.
                      Inr (map fst popped, span,
                           take (length output - arg) output,
                           take (length set_stack - arg) set_stack))))
      else (case tok_span lookahead of
              None \<Rightarrow> Inl AttributeError
            | Some la_span \<Rightarrow>
                (let end = TextSpan_start la_span
                 in ebind (if output \<noteq> []
                           then (case snd (last output) of
                                   None \<Rightarrow> Inl AttributeError
                                 | Some s \<Rightarrow> Inr (TextSpan_end s))
                           else Inr end) (\<lambda>start.
                      Inr ([], TextSpan_init (fst start) (snd start) (fst end) (snd end),
                           output, set_stack)))))"

text \<open>
  \<open>next_token_skip_hidden\<close>, \<open>Parser.__call__\<close> and its \<open>while True\<close> loop.
  The loops have no bound of their own: the first argument is the number of
  calls and iterations allowed, and \<open>None\<close> says that it did not suffice. An
  entry found for a reduction's goto that is no state number fails as the
  index of \<open>self.modes\<close>.
\<close>

function (sequential) next_token_skip_hidden ::
    "nat \<Rightarrow> printer \<Rightarrow> Parser \<Rightarrow> next_token_fn \<Rightarrow> ReStream \<Rightarrow> nat
       \<Rightarrow> (error + (Token \<times> ReStream)) option"
  and Parser_call ::
    "nat \<Rightarrow> printer \<Rightarrow> Parser \<Rightarrow> next_token_fn \<Rightarrow> make_node_fn \<Rightarrow> ReStream
       \<Rightarrow> (error + ((Token + pyval) \<times> ReStream)) option"
  and parse_loop ::
    "nat \<Rightarrow> printer \<Rightarrow> Parser \<Rightarrow> next_token_fn \<Rightarrow> make_node_fn
       \<Rightarrow> output_entry list \<Rightarrow> nat list \<Rightarrow> Token \<Rightarrow> ReStream
       \<Rightarrow> (error + ((Token + pyval) \<times> ReStream)) option"
where
  "next_token_skip_hidden 0 pr self next_token s state = None"
| "next_token_skip_hidden (Suc n) pr self next_token s state =
     (case list_get (modes self) state of
        Inl e \<Rightarrow> Some (Inl e)
      | Inr m \<Rightarrow>
          (case next_token s m of
             Inl e \<Rightarrow> Some (Inl e)
           | Inr (lookahead, s1) \<Rightarrow>
               if tok_channel lookahead = channel self \<or> tok_channel lookahead = CHANNEL_ALL
               then Some (Inr (lookahead, s1))
               else (case rewind s1 lookahead of
                       Inl e \<Rightarrow> Some (Inl e)
                     | Inr s2 \<Rightarrow>
                         (case map_of (hidden self) (tok_channel lookahead) of
                            None \<Rightarrow> Some (Inl KeyError)
                          | Some p \<Rightarrow>
                              (case Parser_call n pr p next_token (\<lambda>t sp c m. PyNoneV) s2 of
                                 None \<Rightarrow> None
                               | Some (Inl e) \<Rightarrow> Some (Inl e)
                               | Some (Inr (result, s3)) \<Rightarrow>
                                   next_token_skip_hidden n pr self next_token s3 state)))))"
| "Parser_call 0 pr self next_token make_node s = None"
| "Parser_call (Suc n) pr self next_token make_node s =
     (case next_token_skip_hidden n pr self next_token s 0 of
        None \<Rightarrow> None
      | Some (Inl e) \<Rightarrow> Some (Inl e)
      | Some (Inr (lookahead, s1)) \<Rightarrow>
          parse_loop n pr self next_token make_node [] [0] lookahead s1)"
| "parse_loop 0 pr self next_token make_node output set_stack lookahead s = None"
| "parse_loop (Suc n) pr self next_token make_node output set_stack lookahead s =
     (if set_stack = [] then Some (Inl IndexError)
      else
        (case map_of (agtable self) (last set_stack, tok_t lookahead) of
           None \<Rightarrow>
             Some (Inl (ParseError
                          (parse_error_message pr (agtable self) (last set_stack) lookahead)))
         | Some Accept \<Rightarrow>
             if length output = 1 then Some (Inr (fst (hd output), s))
             else Some (Inl (AssertionError []))
         | Some (Goto t) \<Rightarrow> Some (Inl TypeError)
         | Some (Shift arg) \<Rightarrow>
             (case next_token_skip_hidden n pr self next_token s arg of
                None \<Rightarrow> None
              | Some (Inl e) \<Rightarrow> Some (Inl e)
              | Some (Inr (lookahead', s1)) \<Rightarrow>
                  parse_loop n pr self next_token make_node
                    (output @ [(Inl lookahead, tok_span lookahead)]) (set_stack @ [arg])
                    lookahead' s1)
         | Some (Reduce nonterminal arg) \<Rightarrow>
             (case reduce_pop arg output set_stack lookahead of
                Inl e \<Rightarrow> Some (Inl e)
              | Inr (children, span, output', set_stack') \<Rightarrow>
                  if set_stack' = [] then Some (Inl IndexError)
                  else
                    (case map_of (agtable self) (last set_stack', nonterminal) of
                       None \<Rightarrow> Some (Inl KeyError)
                     | Some (Goto t) \<Rightarrow>
                         (case list_get (modes self) t of
                            Inl e \<Rightarrow> Some (Inl e)
                          | Inr m \<Rightarrow>
                              parse_loop n pr self next_token make_node
                                (output' @ [(Inr (make_node nonterminal span children m), Some span)])
                                (set_stack' @ [t]) lookahead s)
                     | Some other \<Rightarrow> Some (Inl TypeError)))))"
  by pat_completeness auto
termination
  by (relation "measure (\<lambda>x. case x of
         Inl (n, r) \<Rightarrow> n
       | Inr (Inl (n, r)) \<Rightarrow> n
       | Inr (Inr (n, r)) \<Rightarrow> n)") auto

text \<open>
  A token type is acceptable in a state when the parser has an action for it
  there: the type is a terminal and the table has an entry for the pair.
\<close>

definition acceptable_tokens :: "agtable \<Rightarrow> nat \<Rightarrow> sym set" where
  "acceptable_tokens ag st = {token. is_terminal token \<and> map_of ag (st, token) \<noteq> None}"

text \<open>
  The table of the grammar \<open>S \<rightarrow> E\<close>, \<open>E \<rightarrow> n\<close> with the end symbol \<open>$\<close>:
  state 0 shifts \<open>n\<close> to state 2 and goes to state 1 on \<open>E\<close>; state 1 accepts
  on \<open>$\<close>; state 2 reduces \<open>E \<rightarrow> n\<close> on \<open>$\<close>.
\<close>

definition small_parser :: Parser where
  "small_parser =
     Parser [((0, Str ''E''), Goto 1), ((0, Tok ''n''), Shift 2),
             ((1, Tok ''$''), Accept), ((2, Tok ''$''), Reduce (Str ''E'') 1)]
            [0, 0, 0] [] 0"

definition plus_token :: Token where
  "plus_token =
     \<lparr>tok_t = Tok ''+'', tok_text = Some ''+'', tok_channel = 0,
      tok_span = Some (TextSpan_init 1 0 1 1)\<rparr>"

section \<open>parsing.py: item sets and the translation table\<close>

text \<open>
  A Python set of rules or symbols whose iteration order matters to the code
  is a list without duplicates; the list is the order of iteration. Python
  leaves that order open, the model takes the order of insertion.
\<close>

definition set_add :: "'a list \<Rightarrow> 'a \<Rightarrow> 'a list" where
  "set_add xs x = (if x \<in> set xs then xs else xs @ [x])"

definition set_update :: "'a list \<Rightarrow> 'a list \<Rightarrow> 'a list" where
  "set_update xs ys = foldl set_add xs ys"

definition with_pointer :: "Rule \<Rightarrow> nat option \<Rightarrow> Rule" where
  "with_pointer self p = self\<lparr>pointer := p\<rparr>"

definition next_symbol :: "Rule \<Rightarrow> error + sym option" where
  "next_symbol self =
     (case pointer self of
        None \<Rightarrow> Inl (Exception ''Rule has no pointer'')
      | Some p \<Rightarrow>
          if p = length (rhs self) then Inr None
          else ebind (list_get (rhs self) p) (\<lambda>x. Inr (Some x)))"

definition advanced :: "Rule \<Rightarrow> error + Rule" where
  "advanced self =
     (case pointer self of
        None \<Rightarrow> Inl (Exception ''Rule has no pointer'')
      | Some p \<Rightarrow>
          if p = length (rhs self) then Inl (Exception ''Rule cannot be advanced'')
          else Inr (with_pointer self (Some (p + 1))))"

definition find_rule_indices :: "Grammar \<Rightarrow> sym list \<Rightarrow> nat list" where
  "find_rule_indices g syms = filter (\<lambda>k. lhs (rules g ! k) \<in> set syms) [0 ..< length (rules g)]"

definition find_starting_rule_index :: "Grammar \<Rightarrow> error + nat" where
  "find_starting_rule_index g =
     (let starts = find_rule_indices g [start_symbol g]
      in if length starts = 0 then Inl (Exception ''No starting rule found'')
         else if length starts > 1 then Inl (Exception ''Multiple starting rules found'')
         else if length (rhs (rules g ! hd starts)) \<noteq> 1
         then Inl (Exception ''Starting rule must have one token'')
         else Inr (hd starts))"

text \<open>
  The set \<open>nexts\<close> of \<open>ItemSet.__init__\<close>, with \<open>only_nonterminals\<close>, and the
  property \<open>next_symbols\<close>, without.
\<close>

fun collect_nexts :: "Grammar \<Rightarrow> bool \<Rightarrow> Rule list \<Rightarrow> error + sym list" where
  "collect_nexts g only_nonterminals [] = Inr []"
| "collect_nexts g only_nonterminals (r # rs) =
     ebind (next_symbol r) (\<lambda>ns.
     ebind (collect_nexts g only_nonterminals rs) (\<lambda>rest.
       case ns of
         None \<Rightarrow> Inr rest
       | Some x \<Rightarrow>
           if only_nonterminals \<and> is_terminal x then Inr rest
           else Inr (set_update [x] rest)))"

partial_function (option) ItemSet_loop :: "Grammar \<Rightarrow> Rule list \<Rightarrow> (error + Rule list) option" where
  "ItemSet_loop g items =
     (case collect_nexts g True items of
        Inl e \<Rightarrow> Some (Inl e)
      | Inr nexts \<Rightarrow>
          (let items' = set_update items
                          (map (\<lambda>k. with_pointer (rules g ! k) (Some 0)) (find_rule_indices g nexts))
           in if length items' = length items then Some (Inr items')
              else ItemSet_loop g items'))"

declare ItemSet_loop.simps [code]

definition ItemSet_init :: "Grammar \<Rightarrow> Rule list \<Rightarrow> (error + Rule list) option" where
  "ItemSet_init g items = ItemSet_loop g (remdups items)"

definition next_symbols :: "Grammar \<Rightarrow> Rule list \<Rightarrow> error + sym list" where
  "next_symbols g items = collect_nexts g False items"

text \<open>\<open>ItemSet.advance\<close>.\<close>

fun advance :: "Rule list \<Rightarrow> sym \<Rightarrow> error + Rule list" where
  "advance [] symbol = Inr []"
| "advance (item # items) symbol =
     ebind (next_symbol item) (\<lambda>ns.
       if ns = Some symbol
       then ebind (advanced item) (\<lambda>a. ebind (advance items symbol) (\<lambda>rest. Inr (set_update [a] rest)))
       else advance items symbol)"

text \<open>
  \<open>TranslationTable\<close>: the dict \<open>translation_table\<close>, the list \<open>itemsets\<close>
  and the dict \<open>itemset_index\<close>, whose keys are frozensets of items.
\<close>

record TranslationTable =
  tt_end_symbols :: "sym list"
  tt_table :: "((nat \<times> sym) \<times> nat) list"
  tt_itemsets :: "Rule list list"
  tt_index :: "(Rule list \<times> nat) list"

definition index_lookup :: "(Rule list \<times> nat) list \<Rightarrow> Rule list \<Rightarrow> nat option" where
  "index_lookup idx key = map_option snd (List.find (\<lambda>(key', i). set key' = set key) idx)"

text \<open>The \<open>for symbol in self.itemsets[current].next_symbols\<close> loop.\<close>

fun TranslationTable_symbols ::
  "Grammar \<Rightarrow> nat \<Rightarrow> Rule list \<Rightarrow> sym list \<Rightarrow> TranslationTable
     \<Rightarrow> (error + TranslationTable) option" where
  "TranslationTable_symbols g cur items [] self = Some (Inr self)"
| "TranslationTable_symbols g cur items (symbol # rest) self =
     (case advance items symbol of
        Inl e \<Rightarrow> Some (Inl e)
      | Inr key \<Rightarrow>
          (case index_lookup (tt_index self) key of
             Some itemset \<Rightarrow>
               TranslationTable_symbols g cur items rest
                 (self\<lparr>tt_table := AList.update (cur, symbol) itemset (tt_table self)\<rparr>)
           | None \<Rightarrow>
               (case ItemSet_init g key of
                  None \<Rightarrow> None
                | Some (Inl e) \<Rightarrow> Some (Inl e)
                | Some (Inr new) \<Rightarrow>
                    (let itemset = length (tt_itemsets self)
                     in TranslationTable_symbols g cur items rest
                          (self\<lparr>tt_index := tt_index self @ [(key, itemset)],
                                tt_itemsets := tt_itemsets self @ [new],
                                tt_table := AList.update (cur, symbol) itemset (tt_table self)\<rparr>)))))"

partial_function (option) TranslationTable_loop ::
  "Grammar \<Rightarrow> nat \<Rightarrow> TranslationTable \<Rightarrow> (error + TranslationTable) option" where
  "TranslationTable_loop g cur self =
     (if cur < length (tt_itemsets self)
      then (case next_symbols g (tt_itemsets self ! cur) of
              Inl e \<Rightarrow> Some (Inl e)
            | Inr syms \<Rightarrow>
                (case TranslationTable_symbols g cur (tt_itemsets self ! cur) syms self of
                   None \<Rightarrow> None
                 | Some (Inl e) \<Rightarrow> Some (Inl e)
                 | Some (Inr self') \<Rightarrow> TranslationTable_loop g (cur + 1) self'))
      else Some (Inr self))"

declare TranslationTable_loop.simps [code]

definition TranslationTable_init :: "Grammar \<Rightarrow> (error + TranslationTable) option" where
  "TranslationTable_init g =
     (case find_starting_rule_index g of
        Inl e \<Rightarrow> Some (Inl e)
      | Inr start \<Rightarrow>
          (let startitem = with_pointer (rules g ! start) (Some 0)
           in case ItemSet_init g [startitem] of
                None \<Rightarrow> None
              | Some (Inl e) \<Rightarrow> Some (Inl e)
              | Some (Inr first) \<Rightarrow>
                  TranslationTable_loop g 0
                    \<lparr>tt_end_symbols = end_symbols g, tt_table = [], tt_itemsets = [first],
                     tt_index = [([startitem], 0)]\<rparr>))"

text \<open>
  \<open>build_extended_grammar\<close>. The walk along the right-hand side of a rule,
  the loop over the items of one state, and the loop over the states; the
  second component of the state is \<open>start_symbol\<close>, unbound at first.
\<close>

fun extend_rhs :: "((nat \<times> sym) \<times> nat) list \<Rightarrow> nat \<Rightarrow> sym list \<Rightarrow> error + sym list" where
  "extend_rhs table state [] = Inr []"
| "extend_rhs table state (symbol # rest) =
     (case map_of table (state, symbol) of
        None \<Rightarrow> Inl KeyError
      | Some state' \<Rightarrow>
          ebind (extend_rhs table state' rest) (\<lambda>r.
            Inr (Triple (StateNo state) symbol (StateNo state') # r)))"

fun extend_items ::
  "((nat \<times> sym) \<times> nat) list \<Rightarrow> nat \<Rightarrow> Rule list \<Rightarrow> Rule list \<times> sym option
     \<Rightarrow> error + (Rule list \<times> sym option)" where
  "extend_items table cur [] acc = Inr acc"
| "extend_items table cur (rule # rest) (extended_rules, start) =
     (if pointer rule \<noteq> Some 0 then extend_items table cur rest (extended_rules, start)
      else
        ebind (extend_rhs table cur (rhs rule)) (\<lambda>r.
          case map_of table (cur, lhs rule) of
            Some t \<Rightarrow>
              extend_items table cur rest
                (set_add extended_rules
                   (rule\<lparr>lhs := Triple (StateNo cur) (lhs rule) (StateNo t), rhs := r,
                         pointer := None\<rparr>),
                 start)
          | None \<Rightarrow>
              extend_items table cur rest
                (set_add extended_rules
                   (rule\<lparr>lhs := Triple (StateNo cur) (lhs rule) END, rhs := r, pointer := None\<rparr>),
                 Some (Triple (StateNo cur) (lhs rule) END))))"

fun extend_states ::
  "((nat \<times> sym) \<times> nat) list \<Rightarrow> nat \<Rightarrow> Rule list list \<Rightarrow> Rule list \<times> sym option
     \<Rightarrow> error + (Rule list \<times> sym option)" where
  "extend_states table cur [] acc = Inr acc"
| "extend_states table cur (itemset # rest) acc =
     ebind (extend_items table cur itemset acc) (extend_states table (Suc cur) rest)"

definition build_extended_grammar :: "TranslationTable \<Rightarrow> error + Grammar" where
  "build_extended_grammar self =
     ebind (extend_states (tt_table self) 0 (tt_itemsets self) ([], None)) (\<lambda>(extended_rules, start).
       case start of
         None \<Rightarrow> Inl UnboundLocalError
       | Some start_sym \<Rightarrow>
           Inr \<lparr>rules = extended_rules, start_symbol = start_sym,
                end_symbols = map (\<lambda>s. Triple PyNone s PyNone) (tt_end_symbols self)\<rparr>)"

text \<open>\<open>build_modes\<close>.\<close>

fun build_modes_of :: "Rule list list \<Rightarrow> error + int list" where
  "build_modes_of [] = Inr []"
| "build_modes_of (itemset # rest) =
     ebind (partials itemset) (\<lambda>ps.
       let ms = remdups (map rule_mode ps)
       in if length ms = 0 then ebind (build_modes_of rest) (\<lambda>r. Inr (NORMAL_MODE # r))
          else if length ms \<noteq> 1 then Inl (AssertionError ''mode/mode conflict'')
          else ebind (build_modes_of rest) (\<lambda>r. Inr (hd ms # r)))"

definition build_modes :: "TranslationTable \<Rightarrow> error + int list" where
  "build_modes self = build_modes_of (tt_itemsets self)"

text \<open>
  \<open>build_parser\<close> for a grammar without hidden-channel grammars, and with
  them: each auxiliary grammar is built with its channel and no hidden
  grammars of its own.
\<close>

definition build_parser_core ::
  "Grammar \<Rightarrow> int \<Rightarrow> (sym set \<Rightarrow> sym list) \<Rightarrow> (error + Parser) option" where
  "build_parser_core g chan iter =
     (case TranslationTable_init g of
        None \<Rightarrow> None
      | Some (Inl e) \<Rightarrow> Some (Inl e)
      | Some (Inr tt) \<Rightarrow>
          (case build_extended_grammar tt of
             Inl e \<Rightarrow> Some (Inl e)
           | Inr extended_grammar \<Rightarrow>
               (case build_modes tt of
                  Inl e \<Rightarrow> Some (Inl e)
                | Inr ms \<Rightarrow>
                    (case build_followsets extended_grammar of
                       None \<Rightarrow> None
                     | Some (Inl e) \<Rightarrow> Some (Inl e)
                     | Some (Inr followsets) \<Rightarrow>
                         (case assemble_agtable g (tt_table tt) (tt_itemsets tt)
                                 (rules extended_grammar) followsets iter of
                            Inl e \<Rightarrow> Some (Inl e)
                          | Inr ag \<Rightarrow> Some (Inr (Parser ag ms [] chan)))))))"

fun build_hidden ::
  "(int \<times> Grammar) list \<Rightarrow> (sym set \<Rightarrow> sym list) \<Rightarrow> (error + (int \<times> Parser) list) option" where
  "build_hidden [] iter = Some (Inr [])"
| "build_hidden ((chan, aux_grammar) # rest) iter =
     (case build_parser_core aux_grammar chan iter of
        None \<Rightarrow> None
      | Some (Inl e) \<Rightarrow> Some (Inl e)
      | Some (Inr p) \<Rightarrow>
          (case build_hidden rest iter of
             None \<Rightarrow> None
           | Some (Inl e) \<Rightarrow> Some (Inl e)
           | Some (Inr ps) \<Rightarrow> Some (Inr (AList.update chan p ps))))"

definition build_parser ::
  "Grammar \<Rightarrow> (int \<times> Grammar) list \<Rightarrow> int \<Rightarrow> (sym set \<Rightarrow> sym list) \<Rightarrow> (error + Parser) option" where
  "build_parser g hidden_grammars chan iter =
     (case build_parser_core g chan iter of
        None \<Rightarrow> None
      | Some (Inl e) \<Rightarrow> Some (Inl e)
      | Some (Inr p) \<Rightarrow>
          (case build_hidden hidden_grammars iter of
             None \<Rightarrow> None
           | Some (Inl e) \<Rightarrow> Some (Inl e)
           | Some (Inr hs) \<Rightarrow> Some (Inr (Parser (agtable p) (modes p) hs chan))))"

text \<open>An iteration order for sets of symbols: the order of a given list.\<close>

definition iter_by :: "sym list \<Rightarrow> sym set \<Rightarrow> sym list" where
  "iter_by order S = filter (\<lambda>x. x \<in> S) order"

section \<open>Example grammars, lexers and tables\<close>

text \<open>The texts of tokens and symbols, a lexer and a node builder.\<close>

fun symbol_name :: "sym \<Rightarrow> string" where
  "symbol_name (Str s) = s"
| "symbol_name (Tok s) = s"
| "symbol_name x = ''?''"

definition plain_printer :: printer where
  "plain_printer =
     \<lparr>str_token = (\<lambda>token. case tok_text token of None \<Rightarrow> ''EOF'' | Some x \<Rightarrow> x),
      str_symbol = symbol_name\<rparr>"

definition small_lexer :: Lexer where
  "small_lexer =
     Lexer_init (Tok ''$'') [LexRule2 (lit_re ''n'') (Tok ''n''), LexRule2 (lit_re ''+'') (Tok ''+'')]"

definition tree_node :: make_node_fn where
  "tree_node nonterminal span children m =
     AstNode (symbol_name nonterminal) PyNoneV []
       (map (\<lambda>c. case c of
                    Inl token \<Rightarrow> (case tok_text token of None \<Rightarrow> PyNoneV | Some x \<Rightarrow> PyStr x)
                  | Inr v \<Rightarrow> v) children)"

text \<open>
  The grammar \<open>S \<rightarrow> E\<close>, \<open>E \<rightarrow> n\<close> with the end symbol \<open>$\<close>, whose table
  is \<open>small_parser\<close>.
\<close>

definition start_rule :: "nat option \<Rightarrow> Rule" where
  "start_rule p =
     \<lparr>lhs = Str ''S'', rhs = [Str ''E''], prec = None, rassoc = False, rule_mode = 0,
      pointer = p\<rparr>"

definition n_rule :: "nat option \<Rightarrow> Rule" where
  "n_rule p =
     \<lparr>lhs = Str ''E'', rhs = [Tok ''n''], prec = None, rassoc = False, rule_mode = 0, pointer = p\<rparr>"

definition small_grammar :: Grammar where
  "small_grammar =
     \<lparr>rules = [start_rule None, n_rule None], start_symbol = Str ''S'', end_symbols = [Tok ''$'']\<rparr>"

text \<open>
  The grammar \<open>S \<rightarrow> E\<close>, \<open>E \<rightarrow> E + E\<close> (precedence 10, left associative),
  \<open>E \<rightarrow> n\<close>, with its translation table, its item sets, the rules of its
  final sets, and the table at the moment when the loop over the final sets
  comes to state 4 and the symbol \<open>+\<close>: state 4 holds the finished
  \<open>E \<rightarrow> E + E.\<close> and shifts \<open>+\<close> to state 3, whose only partially applied
  item is \<open>E \<rightarrow> E +.E\<close>.
\<close>

definition plus_rule :: "nat option \<Rightarrow> Rule" where
  "plus_rule p =
     \<lparr>lhs = Str ''E'', rhs = [Str ''E'', Tok ''+'', Str ''E''], prec = Some 10, rassoc = False,
      rule_mode = 0, pointer = p\<rparr>"

definition expr_grammar :: Grammar where
  "expr_grammar =
     \<lparr>rules = [start_rule None, plus_rule None, n_rule None],
      start_symbol = Str ''S'',
      end_symbols = [Tok ''$'']\<rparr>"

definition expr_translation :: "((nat \<times> sym) \<times> nat) list" where
  "expr_translation =
     [((0, Str ''E''), 1), ((0, Tok ''n''), 2), ((1, Tok ''+''), 3),
      ((3, Str ''E''), 4), ((3, Tok ''n''), 2), ((4, Tok ''+''), 3)]"

definition expr_itemsets :: "Rule list list" where
  "expr_itemsets =
     [[start_rule (Some 0), plus_rule (Some 0), n_rule (Some 0)],
      [start_rule (Some 1), plus_rule (Some 1)],
      [n_rule (Some 1)],
      [plus_rule (Some 2), plus_rule (Some 0), n_rule (Some 0)],
      [plus_rule (Some 3), plus_rule (Some 1)]]"

definition expr_finalset_rules :: "Rule option list" where
  "expr_finalset_rules =
     [None, Some (start_rule None), Some (n_rule None), None, Some (plus_rule None)]"

definition expr_table_before :: agtable where
  "expr_table_before =
     [((0, Str ''E''), Goto 1), ((0, Tok ''n''), Shift 2), ((1, Tok ''+''), Shift 3),
      ((3, Str ''E''), Goto 4), ((3, Tok ''n''), Shift 2), ((4, Tok ''+''), Shift 3),
      ((1, Tok ''$''), Accept), ((2, Tok ''+''), Reduce (Str ''E'') 1),
      ((2, Tok ''$''), Reduce (Str ''E'') 1)]"

text \<open>
  The grammar \<open>S \<rightarrow> R\<close>, \<open>R \<rightarrow> D B c\<close>, \<open>D \<rightarrow> d\<close>, \<open>B \<rightarrow> \<epsilon>\<close> as the user
  writes it, a lexer for the examples, and the table that \<open>build_parser\<close>
  makes of the grammar.
\<close>

definition nullable_base_grammar :: Grammar where
  "nullable_base_grammar =
     \<lparr>rules = [xrule (Str ''S'') [Str ''R''], xrule (Str ''R'') [Str ''D'', Str ''B'', Tok ''c''],
               xrule (Str ''D'') [Tok ''d''], xrule (Str ''B'') []],
      start_symbol = Str ''S'',
      end_symbols = [Tok ''$'']\<rparr>"

definition example_lexer :: Lexer where
  "example_lexer =
     Lexer_init (Tok ''$'')
       [LexRule2 (lit_re ''n'') (Tok ''n''), LexRule2 (lit_re ''+'') (Tok ''+''),
        LexRule2 (lit_re ''c'') (Tok ''c''), LexRule2 (lit_re ''d'') (Tok ''d'')]"

definition example_iter :: "sym set \<Rightarrow> sym list" where
  "example_iter = iter_by [Tok ''n'', Tok ''+'', Tok ''c'', Tok ''d'', Tok ''$'', EMPTY]"

definition nullable_parser :: Parser where
  "nullable_parser =
     Parser [((0, Str ''R''), Goto 1), ((0, Str ''D''), Goto 2), ((0, Tok ''d''), Shift 3),
             ((2, Str ''B''), Goto 4), ((4, Tok ''c''), Shift 5), ((1, Tok ''$''), Accept),
             ((2, Tok ''c''), Reduce (Str ''B'') 0), ((3, EMPTY), Reduce (Str ''D'') 1),
             ((5, Tok ''$''), Reduce (Str ''R'') 3)]
            [0, 0, 0, 0, 0, 0] [] 0"

text \<open>The grammar \<open>S \<rightarrow> E\<close>, \<open>E \<rightarrow> E + E\<close>, \<open>E \<rightarrow> n\<close> with \<open>+\<close> right-associative.\<close>

definition expr_grammar_right :: Grammar where
  "expr_grammar_right =
     \<lparr>rules = [start_rule None, (plus_rule None)\<lparr>rassoc := True\<rparr>, n_rule None],
      start_symbol = Str ''S'',
      end_symbols = [Tok ''$'']\<rparr>"

definition result_of ::
  "(error + ((Token + pyval) \<times> ReStream)) option \<Rightarrow> (error + (Token + pyval)) option" where
  "result_of r = map_option (map_sum id fst) r"

definition parse_with ::
  "(error + Parser) option \<Rightarrow> string list \<Rightarrow> (error + (Token + pyval)) option" where
  "parse_with built ls =
     (case built of
        None \<Rightarrow> None
      | Some (Inl e) \<Rightarrow> Some (Inl e)
      | Some (Inr p) \<Rightarrow>
          result_of (Parser_call 100 plain_printer p (Lexer_call example_lexer) tree_node
                       (ReStream_init ls)))"

section \<open>Properties of TextSpan, Token and ReStream\<close>

text \<open>
  Claim C5. For all positions \<open>a, b, c, d\<close>, \<open>TextSpan(a, b, c, d)\<close> and
  \<open>TextSpan(c, d, a, b)\<close> are equal spans, and the start of every constructed
  span is lexicographically at most its end.
\<close>

theorem TextSpan_normalized:
  "TextSpan_init a b c d = TextSpan_init c d a b
   \<and> tuple_le (TextSpan_start (TextSpan_init a b c d)) (TextSpan_end (TextSpan_init a b c d))"
  by (auto simp: TextSpan_init_def Let_def tuple_gt_def tuple_le_def
        TextSpan_start_def TextSpan_end_def)

text \<open>
  Claim C9. Two tokens compare equal exactly when their type and text are
  equal; the channel and the span play no part in the comparison.
\<close>

theorem Token_eq_ignores_channel_span:
  "Token_eq x y = (tok_t x = tok_t y \<and> tok_text x = tok_text y)
   \<and> Token_eq (x\<lparr>tok_channel := c, tok_span := sp\<rparr>) (y\<lparr>tok_channel := c', tok_span := sp'\<rparr>)
       = Token_eq x y"
  by (simp add: Token_eq_def Token_cmp_tuple_def)

text \<open>
  Claim C10. A token returned by \<open>produce\<close> has a span on a single line
  whose end is the position of the stream right after the call, and \<open>rewind\<close>
  of that token changes the column only and gives back the stream as it was
  before \<open>produce\<close>. The match object is one returned by \<open>ReStream.match\<close>
  at the current position, so it ends at or after the current column.
\<close>

theorem produce_span_rewind:
  assumes "column s \<le> m_end m"
  shows "\<exists>sp. tok_span (fst (produce s symbol m chan)) = Some sp
           \<and> start_line sp = end_line sp
           \<and> TextSpan_end sp = (line (snd (produce s symbol m chan)),
                                column (snd (produce s symbol m chan)))
           \<and> rewind (snd (produce s symbol m chan)) (fst (produce s symbol m chan))
               = Inr ((snd (produce s symbol m chan))\<lparr>column := column s\<rparr>)
           \<and> (snd (produce s symbol m chan))\<lparr>column := column s\<rparr> = s"
  using assms
  by (simp add: produce_def Let_def rewind_def TextSpan_init_def TextSpan_start_def
        TextSpan_end_def tuple_gt_def)

theorem produce_span_rewind_witness:
  "\<exists>sp. tok_span (fst (produce (ReStream_init [''let x'']) (Tok ''LET'')
                          \<lparr>m_group = ''let'', m_end = 3\<rparr> 0)) = Some sp
        \<and> start_line sp = end_line sp
        \<and> TextSpan_end sp = (1, 3)
        \<and> rewind (snd (produce (ReStream_init [''let x'']) (Tok ''LET'')
                          \<lparr>m_group = ''let'', m_end = 3\<rparr> 0))
                  (fst (produce (ReStream_init [''let x'']) (Tok ''LET'')
                          \<lparr>m_group = ''let'', m_end = 3\<rparr> 0))
            = Inr (ReStream_init [''let x''])"
  using produce_span_rewind [of "ReStream_init [''let x'']" "\<lparr>m_group = ''let'', m_end = 3\<rparr>"
      "Tok ''LET''" 0]
  by (simp add: ReStream_init_def advance_line_def produce_def Let_def)

section \<open>Properties of the lexer\<close>

text \<open>
  When the stream has no line left and the current line is used up, the lexer
  returns the end-of-file token on channel \<open>ALL\<close>.
\<close>

lemma Lexer_call_eof:
  assumes "column s = int (length (current s))" and "stream s = []"
  shows "Lexer_call lx s mode = Inr (produce_eof s (eof lx), s)"
    and "tok_channel (produce_eof s (eof lx)) = CHANNEL_ALL"
  using assms by (simp_all add: Lexer_call_def assure_line_def advance_line_def produce_eof_def)

text \<open>
  When a character is left on the line the lexer stands on after its first
  \<open>assure_line\<close>, the rules are tried in their listed order at that position.
\<close>

lemma try_rules_in_order:
  assumes "column s \<noteq> int (length (current s))"
  shows "try_rules rs s =
           (case List.find (\<lambda>(re, tt, chan). re (current s) (column s) \<noteq> None) rs of
              None \<Rightarrow> Inl (AssertionError ''no match!'')
            | Some (re, tt, chan) \<Rightarrow> Inr (produce s tt (the (re (current s) (column s))) chan))"
  using assms
  by (induction rs) (auto simp: ReStream_match_def assure_line_def split: option.splits)

lemma Lexer_call_in_order:
  assumes "assure_line s = Inr s1" and "column s1 \<noteq> int (length (current s1))"
    and "mode_rules lx mode = Some rs"
  shows "Lexer_call lx s mode =
           (case List.find (\<lambda>(re, tt, chan). re (current s1) (column s1) \<noteq> None) rs of
              None \<Rightarrow> Inl (AssertionError ''no match!'')
            | Some (re, tt, chan) \<Rightarrow> Inr (produce s1 tt (the (re (current s1) (column s1))) chan))"
  using assms by (simp add: Lexer_call_def try_rules_in_order)

text \<open>
  Claim C6. The lexer is to return the end-of-file token whenever the stream
  is used up before a rule matches. On the lines \<open>["x", ""]\<close> the first
  call returns the token for \<open>x\<close>. In the second call the first
  \<open>assure_line\<close> moves to the empty last line; the \<open>assure_line\<close> inside
  \<open>match\<close> then finds no further line, and its StopIteration leaves
  \<open>Lexer.__call__\<close> uncaught: no token is returned and no lexer error
  raised. The same happens at once on the lines \<open>["", ""]\<close>.
\<close>

theorem Lexer_call_empty_line:
  "Lexer_call small_lexer_x (ReStream_init [''x'', []]) 0
     = Inr (\<lparr>tok_t = Tok ''X'', tok_text = Some ''x'', tok_channel = 0,
             tok_span = Some \<lparr>start_line = 1, start_column = 0, end_line = 1, end_column = 1\<rparr>\<rparr>,
            \<lparr>stream = [[]], current = ''x'', line = 1, column = 1\<rparr>)
   \<and> Lexer_call small_lexer_x \<lparr>stream = [[]], current = ''x'', line = 1, column = 1\<rparr> 0
     = Inl StopIteration
   \<and> Lexer_call small_lexer_x (ReStream_init [[], []]) 0 = Inl StopIteration"
  by (simp add: Lexer_call_def small_lexer_x_def Lexer_init_def add_lexrule_def NORMAL_MODE_def
        CHANNEL_DEFAULT_def ReStream_init_def advance_line_def assure_line_def
        ReStream_match_def lit_re_def produce_def TextSpan_init_def TextSpan_start_def
        TextSpan_end_def tuple_gt_def)

section \<open>Properties of the assembler pass\<close>

lemma node_attr_storage [simp]:
  "node_attr (AstNode k p ((''storage'', s) # a) c) ''storage'' = Inr s"
  by (simp add: node_attr_def ebind_def getitem_def)

text \<open>
  Claim C2, as the code has it. For a node whose \<open>storage\<close> attribute is \<open>s\<close>:
  \<open>lda\<close> succeeds exactly on an immediate operand of width 1 whose value is a
  byte, \<open>sta\<close> exactly on an absolute operand of width 1 whose address has 16
  bits, \<open>jmp\<close> exactly on an absolute operand with such an address, and
  \<open>rts\<close> always. An operand of the right kind and another width makes \<open>lda\<close>
  and \<open>sta\<close> raise AssemblyError with the opcode and the width in the message;
  an operand of another kind raises NotImplementedError.
\<close>

theorem assemble_operands:
  assumes "node_attr node ''storage'' = Inr s"
  shows "((\<exists>d. enter_lda node = Inr (AsmRun d))
            = (\<exists>v. s = ImmediateStorage v 1 \<and> 0 \<le> v \<and> v \<le> 255))
       \<and> ((\<exists>d. enter_sta node = Inr (AsmRun d))
            = (\<exists>a. s = AbsoluteStorage a 1 \<and> 0 \<le> a \<and> a \<le> 65535))
       \<and> ((\<exists>d. enter_jmp node = Inr (AsmRun d))
            = (\<exists>a w. s = AbsoluteStorage a w \<and> 0 \<le> a \<and> a \<le> 65535))
       \<and> enter_rts other = Inr (AsmRun [0x60])
       \<and> (\<forall>v w. s = ImmediateStorage v w \<and> w \<noteq> 1 \<longrightarrow>
             enter_lda node
               = Inl (AssemblyError (''LDA loads one byte ('' @ str_int w @ '' given)'')))
       \<and> (\<forall>a w. s = AbsoluteStorage a w \<and> w \<noteq> 1 \<longrightarrow>
             enter_sta node
               = Inl (AssemblyError (''STA stores one byte ('' @ str_int w @ '' given)'')))
       \<and> ((\<forall>v w. s \<noteq> ImmediateStorage v w) \<longrightarrow> enter_lda node = Inl NotImplementedError)
       \<and> ((\<forall>a w. s \<noteq> AbsoluteStorage a w) \<longrightarrow>
             enter_sta node = Inl NotImplementedError
             \<and> enter_jmp node = Inl NotImplementedError)"
  using assms
  by (cases s)
     (auto simp: enter_lda_def enter_sta_def enter_jmp_def enter_rts_def ebind_def
        struct_pack_BB_def struct_pack_BH_def pack_B_def pack_H_def)

theorem assemble_operands_witness:
  "enter_lda (AstNode ''lda'' PyNoneV [(''storage'', ImmediateStorage 42 2), (''size'', PyInt 2)] [])
     = Inl (AssemblyError ''LDA loads one byte (2 given)'')
   \<and> enter_sta (AstNode ''lda'' PyNoneV [(''storage'', ImmediateStorage 42 2), (''size'', PyInt 2)] [])
     = Inl NotImplementedError"
  using assemble_operands
    [of "AstNode ''lda'' PyNoneV [(''storage'', ImmediateStorage 42 2), (''size'', PyInt 2)] []"
        "ImmediateStorage 42 2"]
  by (simp add: str_int_def str_nat.simps [of 2] digit_char_def)

text \<open>
  The claim as the spec states it asks for an AssemblyError on every other
  storage kind; an \<open>lda\<close> with an absolute operand raises NotImplementedError.
\<close>

theorem enter_lda_absolute_not_assembly_error:
  "enter_lda (AstNode ''lda'' PyNoneV [(''storage'', AbsoluteStorage 4096 1), (''size'', PyInt 2)] [])
     = Inl NotImplementedError"
  by (simp add: enter_lda_def ebind_def)

text \<open>
  Claim C8. With a byte value \<open>v\<close> and a 16-bit address \<open>addr\<close>: \<open>lda\<close>
  emits \<open>A9 v\<close>, \<open>sta\<close> emits \<open>8D\<close> and the address low byte first,
  \<open>jmp\<close> emits \<open>4C\<close> and the address low byte first for any width, \<open>rts\<close>
  emits \<open>60\<close>; \<open>sta\<close> of \<open>AbsoluteStorage(0xD020, 1)\<close> gives \<open>8D 20 D0\<close>.
\<close>

theorem emitted_bytes:
  assumes "0 \<le> v" and "v \<le> 255" and "0 \<le> addr" and "addr \<le> 65535"
  shows "ebind (lda pos (ImmediateStorage v 1)) enter_lda = Inr (AsmRun [0xA9, v])
       \<and> ebind (sta pos (AbsoluteStorage addr 1)) enter_sta
           = Inr (AsmRun [0x8D, addr mod 256, addr div 256])
       \<and> ebind (jmp pos (AbsoluteStorage addr w)) enter_jmp
           = Inr (AsmRun [0x4C, addr mod 256, addr div 256])
       \<and> enter_rts (rts pos) = Inr (AsmRun [0x60])
       \<and> ebind (sta pos (AbsoluteStorage 0xD020 1)) enter_sta = Inr (AsmRun [0x8D, 0x20, 0xD0])"
  using assms
  by (simp add: lda_def sta_def jmp_def rts_def enter_lda_def enter_sta_def enter_jmp_def
        enter_rts_def ebind_def struct_pack_BB_def struct_pack_BH_def pack_B_def pack_H_def)

theorem emitted_bytes_witness:
  "ebind (lda PyNoneV (ImmediateStorage 42 1)) enter_lda = Inr (AsmRun [0xA9, 0x2A])
   \<and> ebind (sta PyNoneV (AbsoluteStorage 0x1000 1)) enter_sta = Inr (AsmRun [0x8D, 0x00, 0x10])
   \<and> ebind (jmp PyNoneV (AbsoluteStorage 0x1000 7)) enter_jmp = Inr (AsmRun [0x4C, 0x00, 0x10])
   \<and> enter_rts (rts PyNoneV) = Inr (AsmRun [0x60])"
  using emitted_bytes [of 42 "0x1000" PyNoneV 7]
  by simp

section \<open>Properties of constant resolution\<close>

text \<open>The innermost scope that binds the name decides the lookup.\<close>

lemma look_up_constant_innermost:
  assumes "get_attr_default scope ''known_constants'' (PyDict []) = Inr (PyDict d)"
    and "map_of d n = Some v"
  shows "look_up_constant (outer @ [scope]) n = Inr v"
  using assms by (simp add: look_up_constant_def ebind_def)

text \<open>An identifier whose lookup gives a true value is replaced by that value.\<close>

lemma exit_identifier_replaces:
  assumes "node_attr node ''name'' = Inr (PyStr n)"
    and "look_up_constant scopes n = Inr v" and "py_truthy v"
  shows "exit_identifier scopes node = Inr v"
  using assms by (simp add: exit_identifier_def ebind_def)

text \<open>An identifier whose name no scope binds is returned as it is.\<close>

lemma exit_identifier_unbound:
  assumes "node_attr node ''name'' = Inr (PyStr n)"
    and "look_up_constant scopes n = Inr PyNoneV"
  shows "exit_identifier scopes node = Inr node"
  using assms by (simp add: exit_identifier_def ebind_def)

text \<open>
  Claim C3. Every identifier whose name has a constant binding in scope is to
  be replaced by the bound value. After \<open>constant K = 0\<close> has been bound in the
  unit, the lookup of \<open>K\<close> finds the value 0, and \<open>exit_identifier\<close> returns
  the identifier node itself: the test \<open>not value\<close> takes the bound 0 for a
  missing binding.
\<close>

theorem exit_identifier_zero_constant:
  "exit_constant [AstNode ''unit'' PyNoneV [] []]
       (AstNode ''constant'' PyNoneV [(''name'', PyStr ''K'')] [PyInt 0])
     = Inr ([], [AstNode ''unit'' PyNoneV [(''known_constants'', PyDict [(''K'', PyInt 0)])] []])
   \<and> look_up_constant
       [AstNode ''unit'' PyNoneV [(''known_constants'', PyDict [(''K'', PyInt 0)])] []] ''K''
     = Inr (PyInt 0)
   \<and> exit_identifier
       [AstNode ''unit'' PyNoneV [(''known_constants'', PyDict [(''K'', PyInt 0)])] []]
       (AstNode ''identifier'' PyNoneV [(''name'', PyStr ''K'')] [])
     = Inr (AstNode ''identifier'' PyNoneV [(''name'', PyStr ''K'')] [])"
  by (simp add: exit_constant_def bind_constant_def exit_identifier_def look_up_constant_def
        get_attr_default_def node_attr_def getitem_def ebind_def)

section \<open>Properties of the FOLLOW sets\<close>

text \<open>
  Claim C1. For a rule \<open>R \<rightarrow> \<alpha> D \<beta>\<close> the follow set of \<open>D\<close> is to contain
  FIRST(\<open>\<beta>\<close>) without \<open>\<epsilon>\<close>. In the extended grammar of \<open>S \<rightarrow> R\<close>,
  \<open>R \<rightarrow> D B c\<close>, \<open>D \<rightarrow> d\<close>, \<open>B \<rightarrow> \<epsilon>\<close> both functions return; the symbols
  after \<open>D\<close> in the second rule are \<open>B c\<close>, whose FIRST without \<open>\<epsilon>\<close> is
  \<open>{c}\<close>, and the follow set computed for \<open>D\<close> is \<open>{EMPTY}\<close>: it holds the
  \<open>\<epsilon>\<close> marker and lacks \<open>c\<close>.
\<close>

theorem build_followsets_nullable:
  "\<exists>firstsets followsets.
      build_firstsets nullable_grammar = Some (Inr firstsets)
    \<and> build_followsets nullable_grammar = Some (Inr followsets)
    \<and> spec_first_seq firstsets [xB, x_c] - {EMPTY} = {Tok ''c''}
    \<and> followsets xD = Some {EMPTY}"
  by (simp add: build_followsets_def build_firstsets_def nullable_grammar_def symbols_def
        xrule_def xS_def xR_def xD_def xB_def x_c_def x_d_def dict_update_def dict_get_def
        ebind_def end_set_def first_loop.simps follow_loop.simps)

section \<open>Properties of the table assembly\<close>

lemma reduction_entry_not_shift: "reduction_entry g red symbol \<noteq> Shift t"
  by (simp add: reduction_entry_def)

lemma map_of_update_same: "map_of (AList.update key v ag) key = Some v"
  by (simp add: update_conv')

text \<open>
  Claim C4. Let the table hold a shift to state \<open>t\<close> at \<open>(k, symbol)\<close>, let
  \<open>shift_rule\<close> be the single partially applied item of state \<open>t\<close> and
  \<open>red\<close> the rule that is reduced in the final state \<open>k\<close>. When both rules
  have a precedence, the table is left as it is if the precedence of
  \<open>shift_rule\<close> is greater, or equal with \<open>shift_rule\<close> right-associative,
  and otherwise the entry of the reduction (accept for the start symbol on an
  end symbol, else \<open>reduce\<close> with the left-hand side and the length of
  \<open>red\<close>) replaces the shift; so the shift stays exactly in the first case.
  When one of the rules has no precedence, the assertion fails.
\<close>

theorem shift_reduce_resolution:
  assumes "map_of ag (k, symbol) = Some (Shift t)"
    and "list_get itemsets t = Inr items"
    and "partials items = Inr [shift_rule]"
    and "list_get finalset_rules k = Inr (Some red)"
  shows "(\<forall>sp rp. prec shift_rule = Some sp \<and> prec red = Some rp \<longrightarrow>
            (\<exists>ag'. add_reduction g itemsets finalset_rules ag k symbol = Inr ag'
               \<and> ag' = (if sp > rp \<or> (sp = rp \<and> rassoc shift_rule) then ag
                         else AList.update (k, symbol) (reduction_entry g red symbol) ag)
               \<and> (map_of ag' (k, symbol) = Some (Shift t))
                   = (sp > rp \<or> (sp = rp \<and> rassoc shift_rule))
               \<and> (\<not> (sp > rp \<or> (sp = rp \<and> rassoc shift_rule)) \<longrightarrow>
                    map_of ag' (k, symbol) = Some (reduction_entry g red symbol))))
       \<and> (prec shift_rule = None \<or> prec red = None \<longrightarrow>
            add_reduction g itemsets finalset_rules ag k symbol
              = Inl (AssertionError ''shift/reduce''))
       \<and> reduction_entry g red symbol
           = (if lhs red = start_symbol g \<and> symbol \<in> set (end_symbols g) then Accept
              else Reduce (lhs red) (length (rhs red)))"
  using assms
  by (auto simp: add_reduction_def resolve_conflict_def ebind_def map_of_update_same
        reduction_entry_not_shift reduction_entry_def split: option.splits)

theorem shift_reduce_resolution_witness:
  "add_reduction expr_grammar expr_itemsets expr_finalset_rules expr_table_before 4 (Tok ''+'')
     = Inr [((0, Str ''E''), Goto 1), ((0, Tok ''n''), Shift 2), ((1, Tok ''+''), Shift 3),
            ((3, Str ''E''), Goto 4), ((3, Tok ''n''), Shift 2),
            ((4, Tok ''+''), Reduce (Str ''E'') 3),
            ((1, Tok ''$''), Accept), ((2, Tok ''+''), Reduce (Str ''E'') 1),
            ((2, Tok ''$''), Reduce (Str ''E'') 1)]"
  using shift_reduce_resolution
    [of expr_table_before 4 "Tok ''+''" 3 expr_itemsets
        "[plus_rule (Some 2), plus_rule (Some 0), n_rule (Some 0)]" "plus_rule (Some 2)"
        expr_finalset_rules "plus_rule None" expr_grammar]
  by (simp add: expr_table_before_def expr_itemsets_def expr_finalset_rules_def plus_rule_def
        n_rule_def start_rule_def expr_grammar_def list_get_def ebind_def reduction_entry_def)

text \<open>An error of the loop body ends the loops: the table is not built.\<close>

lemma add_reductions_for_error:
  assumes "add_reduction g itemsets finalset_rules ag k symbol = Inl e"
  shows "add_reductions_for g itemsets finalset_rules k (symbol # rest) ag = Inl e"
    and "add_reductions g itemsets finalset_rules (\<lambda>S. symbol # rest) k (followset # others) ag = Inl e"
  using assms by (simp_all add: ebind_def)

section \<open>Properties of the parser\<close>

lemma expected_symbols_set:
  "set (expected_symbols ag st) = {token. \<exists>a. ((st, token), a) \<in> set ag}"
  by (force simp: expected_symbols_def)

lemma expected_symbols_keys:
  "set (expected_symbols ag st) = {token. map_of ag (st, token) \<noteq> None}"
  unfolding expected_symbols_set
  by (force simp: map_of_eq_None_iff image_iff)

text \<open>A run of the parser on the line \<open>n\<close>: it shifts, reduces and accepts.\<close>

lemma small_parser_accepts:
  "Parser_call 10 plain_printer small_parser (Lexer_call small_lexer) tree_node
       (ReStream_init [''n''])
     = Some (Inr (Inr (AstNode ''E'' PyNoneV [] [PyStr ''n'']),
                  \<lparr>stream = [], current = ''n'', line = 1, column = 1\<rparr>))"
  by code_simp

text \<open>
  Claim C7, as the code has it. When the table has no entry for the top state
  and the type of the lookahead, the parser raises ParseError; the message
  names the lookahead and then lists exactly the symbols that have an entry of
  the table in the top state. These are the acceptable token types and the
  nonterminals with a goto from the state.
\<close>

theorem parse_error_lists_entries:
  assumes "set_stack \<noteq> []"
    and "map_of (agtable p) (last set_stack, tok_t lookahead) = None"
  shows "parse_loop (Suc n) pr p next_token make_node output set_stack lookahead s
           = Some (Inl (ParseError
               (join_lines ((''Got '' @ str_token pr lookahead @ '' but expected one of:'')
                  # map (\<lambda>token. ''  '' @ str_symbol pr token)
                      (expected_symbols (agtable p) (last set_stack))))))
       \<and> set (expected_symbols (agtable p) (last set_stack))
           = {token. map_of (agtable p) (last set_stack, token) \<noteq> None}
       \<and> set (expected_symbols (agtable p) (last set_stack))
           = acceptable_tokens (agtable p) (last set_stack)
             \<union> {token. \<not> is_terminal token \<and> map_of (agtable p) (last set_stack, token) \<noteq> None}"
  using assms
  by (auto simp: parse_error_message_def expected_symbols_keys acceptable_tokens_def)

theorem parse_error_lists_entries_witness:
  "parse_loop (Suc 0) plain_printer small_parser (Lexer_call small_lexer) tree_node [] [0]
       plus_token (ReStream_init [])
     = Some (Inl (ParseError ''Got + but expected one of:\<newline>  E\<newline>  n''))"
  using parse_error_lists_entries
    [of "[0]" small_parser plus_token 0 plain_printer "Lexer_call small_lexer" tree_node "[]"
        "ReStream_init []"]
  by (simp add: small_parser_def plus_token_def plain_printer_def expected_symbols_def)

text \<open>
  The claim as the spec states it has the message list exactly the acceptable
  tokens. In state 0 of the table of \<open>S \<rightarrow> E\<close>, \<open>E \<rightarrow> n\<close> the only
  acceptable token is \<open>n\<close>; the message for the lookahead \<open>+\<close> lists the
  nonterminal \<open>E\<close> as well.
\<close>

theorem parse_error_lists_nonterminal:
  "parse_loop (Suc 0) plain_printer small_parser (Lexer_call small_lexer) tree_node [] [0]
       plus_token (ReStream_init [])
     = Some (Inl (ParseError ''Got + but expected one of:\<newline>  E\<newline>  n''))
   \<and> expected_symbols (agtable small_parser) 0 = [Str ''E'', Tok ''n'']
   \<and> acceptable_tokens (agtable small_parser) 0 = {Tok ''n''}
   \<and> set (expected_symbols (agtable small_parser) 0) \<noteq> acceptable_tokens (agtable small_parser) 0"
proof -
  have acc: "acceptable_tokens (agtable small_parser) 0 = {Tok ''n''}"
    by (auto simp: acceptable_tokens_def small_parser_def split: if_splits)
  have ex: "expected_symbols (agtable small_parser) 0 = [Str ''E'', Tok ''n'']"
    by (simp add: expected_symbols_def small_parser_def)
  have run: "parse_loop (Suc 0) plain_printer small_parser (Lexer_call small_lexer) tree_node
               [] [0] plus_token (ReStream_init [])
             = Some (Inl (ParseError ''Got + but expected one of:\<newline>  E\<newline>  n''))"
    by (simp add: small_parser_def plus_token_def plain_printer_def parse_error_message_def
          expected_symbols_def)
  show ?thesis using acc ex run by simp
qed

section \<open>The generator and the parser on whole grammars\<close>

text \<open>
  The extended grammar of \<open>S \<rightarrow> R\<close>, \<open>R \<rightarrow> D B c\<close>, \<open>D \<rightarrow> d\<close>, \<open>B \<rightarrow> \<epsilon>\<close>,
  computed by the translation table and \<open>build_extended_grammar\<close>.
\<close>

lemma nullable_extended_grammar:
  "map_option (map_sum id build_extended_grammar) (TranslationTable_init nullable_base_grammar)
     = Some (Inr (Inr nullable_grammar))"
  by code_simp

text \<open>
  The parser built for that grammar reduces \<open>D \<rightarrow> d\<close> on the marker \<open>EMPTY\<close>
  only, and so rejects the sentence \<open>d c\<close> of the grammar.
\<close>

lemma nullable_parser_built:
  "build_parser nullable_base_grammar [] 0 example_iter = Some (Inr nullable_parser)"
  by code_simp

lemma nullable_parser_rejects:
  "parse_with (build_parser nullable_base_grammar [] 0 example_iter) [''dc'']
     = Some (Inl (ParseError ''Got c but expected one of:\<newline>  ?''))"
  by code_simp

text \<open>
  The conflict between shifting \<open>+\<close> and reducing \<open>E \<rightarrow> E + E\<close> is resolved
  for the reduction when \<open>+\<close> is left-associative and for the shift when it
  is right-associative: \<open>n+n+n\<close> is read as \<open>(n+n)+n\<close> and as \<open>n+(n+n)\<close>.
\<close>

lemma expr_parse_left:
  "parse_with (build_parser expr_grammar [] 0 example_iter) [''n+n+n'']
     = Some (Inr (Inr (AstNode ''E'' PyNoneV []
         [AstNode ''E'' PyNoneV []
            [AstNode ''E'' PyNoneV [] [PyStr ''n''], PyStr ''+'',
             AstNode ''E'' PyNoneV [] [PyStr ''n'']],
          PyStr ''+'',
          AstNode ''E'' PyNoneV [] [PyStr ''n'']])))"
  by code_simp

lemma expr_parse_right:
  "parse_with (build_parser expr_grammar_right [] 0 example_iter) [''n+n+n'']
     = Some (Inr (Inr (AstNode ''E'' PyNoneV []
         [AstNode ''E'' PyNoneV [] [PyStr ''n''],
          PyStr ''+'',
          AstNode ''E'' PyNoneV []
            [AstNode ''E'' PyNoneV [] [PyStr ''n''], PyStr ''+'',
             AstNode ''E'' PyNoneV [] [PyStr ''n'']]])))"
  by code_simp

text \<open>
  The example tables are the ones the generator computes: the table of
  \<open>S \<rightarrow> E\<close>, \<open>E \<rightarrow> n\<close>, and the translation table and item sets of the
  grammar with \<open>+\<close>.
\<close>

lemma small_parser_built:
  "build_parser small_grammar [] 0 example_iter = Some (Inr small_parser)"
  by code_simp

lemma expr_tables_built:
  "map_option (map_sum id (\<lambda>tt. (tt_table tt, tt_itemsets tt))) (TranslationTable_init expr_grammar)
     = Some (Inr (expr_translation, expr_itemsets))"
  by code_simp

end
